theory Spec2Isabelle
  imports Complex_Main "HOL-Library.Log_Nat"
begin

section \<open>Data model of the bot\<close>

text \<open>
  The class \<open>LiquidBot\<close> is embedded as a record that is passed through every method and
  returned updated. A JavaScript \<open>number\<close> is a \<open>real\<close> that is an IEEE double, and every
  arithmetic operation of the source rounds its exact result to the nearest double
  (\<open>fl\<close>, below). A \<open>BN\<close> is an \<open>int\<close>. Addresses, signatures and mint identities are
  strings. Cycles are taken one at a time: a timer tick that fires while an earlier cycle
  is still awaiting is outside the model.
\<close>

subsection \<open>Double-precision arithmetic\<close>

text \<open>
  \<open>ilog2 x\<close> is the binary exponent of a positive \<open>x\<close>, the integer \<open>k\<close> with
  \<open>2 ^ k \<le> x < 2 ^ (k + 1)\<close>, computed from the bit length of an integer next to \<open>x\<close> or
  to \<open>1 / x\<close>. \<open>roundEven\<close> rounds to the nearest integer, a tie to the even one. \<open>fl\<close>
  rounds to 53 significant bits, and below \<open>2 ^ - 1022\<close> to multiples of \<open>2 ^ - 1074\<close>
  (the subnormal doubles): round to nearest, ties to even, as IEEE 754 prescribes for
  \<open>+\<close>, \<open>-\<close>, \<open>*\<close> and \<open>/\<close>. Overflow to \<open>Infinity\<close> (results of \<open>2 ^ 1024\<close> and above) and
  \<open>NaN\<close> are outside the model.
\<close>

definition ilog2 :: "real \<Rightarrow> int" where
  "ilog2 x = (if 1 \<le> x then bitlen \<lfloor>x\<rfloor> - 1 else - bitlen (\<lceil>1 / x\<rceil> - 1))"

definition roundEven :: "real \<Rightarrow> int" where
  "roundEven r =
     (let f = \<lfloor>r\<rfloor>; d = r - of_int f
      in if d < 1 / 2 then f else if 1 / 2 < d then f + 1 else if even f then f else f + 1)"

definition fl :: "real \<Rightarrow> real" where
  "fl x =
     (if x = 0 then 0
      else (let e = max (ilog2 \<bar>x\<bar> - 52) (- 1074)
            in of_int (roundEven (x / 2 powi e)) * 2 powi e))"

text \<open>The four operators of the source on numbers.\<close>

definition jsAdd :: "real \<Rightarrow> real \<Rightarrow> real" where
  "jsAdd a b = fl (a + b)"

definition jsSub :: "real \<Rightarrow> real \<Rightarrow> real" where
  "jsSub a b = fl (a - b)"

definition jsMul :: "real \<Rightarrow> real \<Rightarrow> real" where
  "jsMul a b = fl (a * b)"

definition jsDiv :: "real \<Rightarrow> real \<Rightarrow> real" where
  "jsDiv a b = fl (a / b)"

subsection \<open>Configuration, status and events\<close>

record BotConfig =
  heliusRpcUrl :: string
  privateKey :: string
  tokenMint :: string
  minFeeThreshold :: real
  buybackPercentage :: real
  checkInterval :: real

datatype phase = bonding_curve | pumpswap | unknown

record BotStatus =
  status_isRunning :: bool
  status_tokenMint :: string
  currentPhase :: phase
  totalFeesCollected :: real
  totalBuybacks :: real
  totalSolHeld :: real
  tokensHeld :: real
  lastCheck :: "nat option"
  status_pumpSwapPool :: "string option"

text \<open>A thrown value; only its message is ever read by the bot.\<close>

datatype fault = Fault string

datatype level = info | success | warning | error

text \<open>
  One constructor per message template of the source; the numbers and strings that the
  template interpolates are the constructor's arguments.
\<close>

datatype message =
    BotInitialized string
  | WalletIs
  | MinFeeThresholdIs real
  | BuybackPercentageIs real
  | AlreadyRunning
  | BotStarted
  | NotRunning
  | BotStopped
  | RunningCycle
  | TokenPhase phase
  | CreatorFeeBalance real
  | FeesAboveThreshold real
  | BuybackAmountIs real real
  | HoldAmountIs real real
  | FeesBelowThreshold real real
  | CycleError fault
  | CouldNotDeterminePhase
  | DetectedPool string
  | CouldNotDetectPool
  | FailedToGetFeeBalance
  | NoClaimInstructions
  | FeesClaimed string
  | FailedToClaimFees fault
  | BuybackCompleted real string
  | BuybackFailed fault
  | PoolNotDetected
  | PumpSwapPhaseDetected real
  | NoPoolToBuyFrom
  | BuyingTokens real
  | PumpSwapBuybackCompleted string
  | PumpSwapBuybackFailed fault
  | NoPoolToAddLiquidity
  | AddingLiquidity real nat
  | LiquidityAdded string
  | AddLiquidityFailed fault

text \<open>What the bot hands to its \<open>EventEmitter\<close>: \<open>emit('log', entry)\<close> and
  \<open>emit('statusUpdate', status)\<close>. The wall-clock stamp of a log entry is left out.\<close>

datatype event = LogEntry level message | StatusUpdate BotStatus

text \<open>Instrumentation only: the gateway-facing methods of the bot that a cycle entered,
  in order, each with the amount it was called with.\<close>

datatype call =
    ClaimFees
  | BuybackOnBondingCurve real
  | BuybackOnPumpSwap real
  | AddLiquidityToPumpSwap real

text \<open>The fields of the class that the methods read or write. \<open>intervalId\<close> is the armed
  timer, recorded by its period; \<open>emitted\<close> is everything handed to the \<open>EventEmitter\<close> so
  far; \<open>calls\<close> is the instrumentation above.\<close>

record LiquidBot =
  config :: BotConfig
  isRunning :: bool
  intervalId :: "real option"
  status :: BotStatus
  pumpSwapPool :: "string option"
  emitted :: "event list"
  calls :: "call list"

text \<open>
  Everything a cycle learns from outside the process, one field per awaited call (or per
  run of calls that share one \<open>try\<close> block and one outcome):
  \<^item> \<open>now\<close>: \<open>new Date()\<close> at the start of the cycle;
  \<^item> \<open>fetchBondingCurve\<close>: the curve's \<open>complete\<close> flag, or the fault thrown;
  \<^item> \<open>poolLookup\<close>: \<open>canonicalPumpPoolPda\<close> followed by \<open>getAccountInfo\<close>: the derived
    address when the account exists, \<open>None\<close> when it does not, or the fault thrown;
  \<^item> \<open>getCreatorVaultBalance\<close>: the balance in lamports;
  \<^item> \<open>collectInstructions\<close>: how many instructions
    \<open>collectCoinCreatorFeeInstructions\<close> returned;
  \<^item> \<open>claimTx\<close>, \<open>swapTx\<close>, \<open>depositTx\<close>: the signature returned by
    \<open>sendAndConfirmTransaction\<close>, or the fault thrown;
  \<^item> \<open>bondingCurveBuy\<close>: the whole \<open>try\<close> block of \<open>buybackOnBondingCurve\<close>;
  \<^item> \<open>swapState\<close>: \<open>swapSolanaState\<close>; \<open>liquidityQuote\<close>: \<open>liquiditySolanaState\<close> and
    the LP-token amount of \<open>depositAutocompleteBaseAndLpTokenFromQuote\<close>;
  \<^item> \<open>tokenAccountBalance\<close>: \<open>balance.value.uiAmount\<close>, which may be \<open>null\<close>.
\<close>

record world =
  now :: nat
  fetchBondingCurve :: "fault + bool"
  poolLookup :: "fault + string option"
  getCreatorVaultBalance :: "fault + int"
  collectInstructions :: "fault + nat"
  claimTx :: "fault + string"
  bondingCurveBuy :: "fault + string"
  swapState :: "fault + unit"
  swapTx :: "fault + string"
  liquidityQuote :: "fault + nat"
  depositTx :: "fault + string"
  tokenAccountBalance :: "fault + real option"

text \<open>The three checks of the constructor that can throw, in the order of the source:
  \<open>new Connection\<close> on the endpoint, \<open>Keypair.fromSecretKey\<close> on the decoded private key
  and \<open>new PublicKey\<close> on the mint. They belong to web3.js; the record says how each
  turns out.\<close>

record keyMaterial =
  endpointIsUrl :: bool
  secretKeyDecodes :: bool
  mintIsPublicKey :: bool

section \<open>The methods of \<open>LiquidBot\<close>\<close>

definition emitLog :: "level \<Rightarrow> message \<Rightarrow> LiquidBot \<Rightarrow> LiquidBot" where
  "emitLog l m b = b\<lparr>emitted := emitted b @ [LogEntry l m]\<rparr>"

definition enter :: "call \<Rightarrow> LiquidBot \<Rightarrow> LiquidBot" where
  "enter c b = b\<lparr>calls := calls b @ [c]\<rparr>"

definition constructor :: "keyMaterial \<Rightarrow> BotConfig \<Rightarrow> fault + LiquidBot" where
  "constructor km cfg =
     (if \<not> endpointIsUrl km then Inl (Fault ''Endpoint URL must start with http: or https:'')
      else if \<not> secretKeyDecodes km then Inl (Fault ''bad secret key size'')
      else if \<not> mintIsPublicKey km then Inl (Fault ''Invalid public key input'')
      else Inr
        (emitLog info (BuybackPercentageIs (buybackPercentage cfg))
        (emitLog info (MinFeeThresholdIs (minFeeThreshold cfg))
        (emitLog info WalletIs
        (emitLog info (BotInitialized (tokenMint cfg))
          \<lparr>config = cfg, isRunning = False, intervalId = None,
           status = \<lparr>status_isRunning = False, status_tokenMint = tokenMint cfg,
                     currentPhase = unknown, totalFeesCollected = 0, totalBuybacks = 0,
                     totalSolHeld = 0, tokensHeld = 0, lastCheck = None,
                     status_pumpSwapPool = None\<rparr>,
           pumpSwapPool = None, emitted = [], calls = []\<rparr>)))))"

definition detectPumpSwapPool :: "world \<Rightarrow> LiquidBot \<Rightarrow> LiquidBot" where
  "detectPumpSwapPool w b =
     (case poolLookup w of
        Inl f \<Rightarrow> emitLog warning CouldNotDetectPool b
      | Inr None \<Rightarrow> b
      | Inr (Some poolAddress) \<Rightarrow>
          emitLog success (DetectedPool poolAddress)
            (b\<lparr>pumpSwapPool := Some poolAddress,
               status := (status b)\<lparr>status_pumpSwapPool := Some poolAddress\<rparr>\<rparr>))"

definition checkTokenPhase :: "world \<Rightarrow> LiquidBot \<Rightarrow> phase \<times> LiquidBot" where
  "checkTokenPhase w b =
     (case fetchBondingCurve w of
        Inr curveComplete \<Rightarrow>
          if curveComplete then (pumpswap, detectPumpSwapPool w b) else (bonding_curve, b)
      | Inl f \<Rightarrow>
          (let b1 = detectPumpSwapPool w (emitLog warning CouldNotDeterminePhase b)
           in if pumpSwapPool b1 \<noteq> None then (pumpswap, b1) else (unknown, b1)))"

definition getCreatorFeeBalance :: "world \<Rightarrow> LiquidBot \<Rightarrow> int \<times> LiquidBot" where
  "getCreatorFeeBalance w b =
     (case getCreatorVaultBalance w of
        Inr balance \<Rightarrow> (balance, b)
      | Inl f \<Rightarrow> (0, emitLog error FailedToGetFeeBalance b))"

text \<open>\<open>BN.toNumber\<close> of bn.js, which is not part of this repository: it throws when the
  value does not fit in 53 bits.\<close>

definition toNumber :: "int \<Rightarrow> fault + real" where
  "toNumber n =
     (if \<bar>n\<bar> < 2 ^ 53 then Inr (real_of_int n)
      else Inl (Fault ''Number can only safely store up to 53 bits''))"

definition claimFees :: "world \<Rightarrow> LiquidBot \<Rightarrow> fault option \<times> LiquidBot" where
  "claimFees w b =
     (let b0 = enter ClaimFees b in
      case collectInstructions w of
        Inl f \<Rightarrow> (Some f, emitLog error (FailedToClaimFees f) b0)
      | Inr n \<Rightarrow>
          if n = 0 then (None, emitLog warning NoClaimInstructions b0)
          else (case claimTx w of
                  Inl f \<Rightarrow> (Some f, emitLog error (FailedToClaimFees f) b0)
                | Inr signature \<Rightarrow> (None, emitLog success (FeesClaimed signature) b0)))"

definition buybackOnBondingCurve ::
  "world \<Rightarrow> real \<Rightarrow> LiquidBot \<Rightarrow> fault option \<times> LiquidBot" where
  "buybackOnBondingCurve w solAmount b =
     (let b0 = enter (BuybackOnBondingCurve solAmount) b in
      case bondingCurveBuy w of
        Inl f \<Rightarrow> (Some f, emitLog error (BuybackFailed f) b0)
      | Inr signature \<Rightarrow> (None, emitLog success (BuybackCompleted solAmount signature) b0))"

definition buybackOnPumpSwap :: "world \<Rightarrow> real \<Rightarrow> LiquidBot \<Rightarrow> LiquidBot" where
  "buybackOnPumpSwap w solAmount b =
     (let b0 = enter (BuybackOnPumpSwap solAmount) b in
      if pumpSwapPool b0 = None then emitLog warning NoPoolToBuyFrom b0
      else (case swapState w of
              Inl f \<Rightarrow> emitLog error (PumpSwapBuybackFailed f) b0
            | Inr u \<Rightarrow>
                (let b1 = emitLog info (BuyingTokens solAmount) b0 in
                 case swapTx w of
                   Inl f \<Rightarrow> emitLog error (PumpSwapBuybackFailed f) b1
                 | Inr signature \<Rightarrow> emitLog success (PumpSwapBuybackCompleted signature) b1)))"

definition addLiquidityToPumpSwap :: "world \<Rightarrow> real \<Rightarrow> LiquidBot \<Rightarrow> LiquidBot" where
  "addLiquidityToPumpSwap w solAmount b =
     (let b0 = enter (AddLiquidityToPumpSwap solAmount) b in
      if pumpSwapPool b0 = None then emitLog warning NoPoolToAddLiquidity b0
      else (case liquidityQuote w of
              Inl f \<Rightarrow> emitLog error (AddLiquidityFailed f) b0
            | Inr lpToken \<Rightarrow>
                (let b1 = emitLog info (AddingLiquidity solAmount lpToken) b0 in
                 case depositTx w of
                   Inl f \<Rightarrow> emitLog error (AddLiquidityFailed f) b1
                 | Inr signature \<Rightarrow> emitLog success (LiquidityAdded signature) b1)))"

definition addBuyback :: "real \<Rightarrow> LiquidBot \<Rightarrow> LiquidBot" where
  "addBuyback x b =
     b\<lparr>status := (status b)\<lparr>totalBuybacks := jsAdd (totalBuybacks (status b)) x\<rparr>\<rparr>"

definition addHeld :: "real \<Rightarrow> LiquidBot \<Rightarrow> LiquidBot" where
  "addHeld x b =
     b\<lparr>status := (status b)\<lparr>totalSolHeld := jsAdd (totalSolHeld (status b)) x\<rparr>\<rparr>"

definition addFees :: "real \<Rightarrow> LiquidBot \<Rightarrow> LiquidBot" where
  "addFees x b =
     b\<lparr>status :=
         (status b)\<lparr>totalFeesCollected := jsAdd (totalFeesCollected (status b)) x\<rparr>\<rparr>"

definition resetHeld :: "LiquidBot \<Rightarrow> LiquidBot" where
  "resetHeld b = b\<lparr>status := (status b)\<lparr>totalSolHeld := 0\<rparr>\<rparr>"

definition handlePumpSwapPhase :: "world \<Rightarrow> real \<Rightarrow> real \<Rightarrow> LiquidBot \<Rightarrow> LiquidBot" where
  "handlePumpSwapPhase w buybackAmount holdAmount b =
     (if pumpSwapPool b = None then
        addHeld holdAmount
          (addBuyback buybackAmount
            (buybackOnPumpSwap w buybackAmount (emitLog warning PoolNotDetected b)))
      else
        (let totalSolAvailable = jsAdd (totalSolHeld (status b)) holdAmount in
         resetHeld
           (addLiquidityToPumpSwap w totalSolAvailable
             (addBuyback buybackAmount
               (buybackOnPumpSwap w buybackAmount
                 (emitLog info (PumpSwapPhaseDetected totalSolAvailable) b))))))"

definition updateTokenBalance :: "world \<Rightarrow> LiquidBot \<Rightarrow> LiquidBot" where
  "updateTokenBalance w b =
     b\<lparr>status := (status b)\<lparr>tokensHeld :=
        (case tokenAccountBalance w of
           Inl f \<Rightarrow> 0
         | Inr None \<Rightarrow> 0
         | Inr (Some uiAmount) \<Rightarrow> uiAmount)\<rparr>\<rparr>"

definition emitStatusUpdate :: "LiquidBot \<Rightarrow> LiquidBot" where
  "emitStatusUpdate b = b\<lparr>emitted := emitted b @ [StatusUpdate (status b)]\<rparr>"

definition buybackOf :: "BotConfig \<Rightarrow> real \<Rightarrow> real" where
  "buybackOf cfg feeBalanceSOL = jsDiv (jsMul feeBalanceSOL (buybackPercentage cfg)) 100"

definition holdOf :: "BotConfig \<Rightarrow> real \<Rightarrow> real" where
  "holdOf cfg feeBalanceSOL = jsSub feeBalanceSOL (buybackOf cfg feeBalanceSOL)"

text \<open>Lines 146 to 167 of the source: the branch of \<open>runCycle\<close> taken when the balance
  reaches the threshold. The first component is the fault that escapes, if any.\<close>

definition claimAndAllocate ::
  "world \<Rightarrow> phase \<Rightarrow> real \<Rightarrow> LiquidBot \<Rightarrow> fault option \<times> LiquidBot" where
  "claimAndAllocate w ph feeBalanceSOL b =
     (case claimFees w
             (emitLog success (FeesAboveThreshold (minFeeThreshold (config b))) b) of
        (Some f, b1) \<Rightarrow> (Some f, b1)
      | (None, b1) \<Rightarrow>
          (let b2 = addFees feeBalanceSOL b1;
               buybackAmount = buybackOf (config b) feeBalanceSOL;
               holdAmount = holdOf (config b) feeBalanceSOL;
               b3 = emitLog info
                      (HoldAmountIs holdAmount (jsSub 100 (buybackPercentage (config b))))
                      (emitLog info (BuybackAmountIs buybackAmount (buybackPercentage (config b)))
                         b2)
           in if ph = bonding_curve then
                (case buybackOnBondingCurve w buybackAmount b3 of
                   (Some f, b4) \<Rightarrow> (Some f, b4)
                 | (None, b4) \<Rightarrow> (None, addHeld holdAmount (addBuyback buybackAmount b4)))
              else if ph = pumpswap then
                (None, handlePumpSwapPhase w buybackAmount holdAmount b3)
              else (None, b3)))"

text \<open>The body of the \<open>try\<close> block of \<open>runCycle\<close>.\<close>

definition runCycleBody :: "world \<Rightarrow> LiquidBot \<Rightarrow> fault option \<times> LiquidBot" where
  "runCycleBody w b =
     (let b1 = emitLog info RunningCycle b;
          b2 = b1\<lparr>status := (status b1)\<lparr>lastCheck := Some (now w)\<rparr>\<rparr>;
          (ph, b3) = checkTokenPhase w b2;
          b4 = emitLog info (TokenPhase ph) (b3\<lparr>status := (status b3)\<lparr>currentPhase := ph\<rparr>\<rparr>);
          (feeBalance, b5) = getCreatorFeeBalance w b4
      in case toNumber feeBalance of
           Inl f \<Rightarrow> (Some f, b5)
         | Inr n \<Rightarrow>
             (let feeBalanceSOL = jsDiv n (10 ^ 9);
                  b6 = emitLog info (CreatorFeeBalance feeBalanceSOL) b5;
                  (thrown, b7) =
                    (if feeBalanceSOL \<ge> minFeeThreshold (config b6)
                     then claimAndAllocate w ph feeBalanceSOL b6
                     else (None,
                           emitLog info
                             (FeesBelowThreshold feeBalanceSOL (minFeeThreshold (config b6)))
                             b6))
              in case thrown of
                   Some f \<Rightarrow> (Some f, b7)
                 | None \<Rightarrow> (None, emitStatusUpdate (updateTokenBalance w b7))))"

definition runCycle :: "world \<Rightarrow> LiquidBot \<Rightarrow> LiquidBot" where
  "runCycle w b =
     (case runCycleBody w b of
        (None, b1) \<Rightarrow> b1
      | (Some f, b1) \<Rightarrow> emitLog error (CycleError f) b1)"

text \<open>\<open>start\<close> runs the first cycle and then arms the timer; each later firing of the
  timer is one more \<open>runCycle\<close>.\<close>

definition start :: "world \<Rightarrow> LiquidBot \<Rightarrow> LiquidBot" where
  "start w b =
     (if isRunning b then emitLog warning AlreadyRunning b
      else
        (let b1 = b\<lparr>isRunning := True, status := (status b)\<lparr>status_isRunning := True\<rparr>\<rparr>;
             b2 = runCycle w (emitLog success BotStarted b1)
         in b2\<lparr>intervalId := Some (checkInterval (config b2))\<rparr>))"

definition stop :: "LiquidBot \<Rightarrow> LiquidBot" where
  "stop b =
     (if \<not> isRunning b then emitLog warning NotRunning b
      else
        (let b1 = b\<lparr>intervalId := None\<rparr>
         in emitLog info BotStopped
              (b1\<lparr>isRunning := False, status := (status b1)\<lparr>status_isRunning := False\<rparr>\<rparr>)))"

fun runCycles :: "world list \<Rightarrow> LiquidBot \<Rightarrow> LiquidBot" where
  "runCycles [] b = b"
| "runCycles (w # ws) b = runCycles ws (runCycle w b)"

section \<open>Quantities that the properties speak about\<close>

text \<open>The balance that \<open>getCreatorFeeBalance\<close> returns: the vault balance, or zero when the
  read throws.\<close>

definition readFeeBalance :: "world \<Rightarrow> int" where
  "readFeeBalance w = (case getCreatorVaultBalance w of Inr balance \<Rightarrow> balance | Inl f \<Rightarrow> 0)"

text \<open>\<open>feeBalanceSOL\<close> of line 142, or the fault of \<open>toNumber\<close>.\<close>

definition feeBalanceSOL :: "world \<Rightarrow> fault + real" where
  "feeBalanceSOL w =
     (case toNumber (readFeeBalance w) of Inl f \<Rightarrow> Inl f | Inr n \<Rightarrow> Inr (jsDiv n (10 ^ 9)))"

text \<open>The fault with which \<open>claimFees\<close> rejects, if it does.\<close>

definition claimThrown :: "world \<Rightarrow> fault option" where
  "claimThrown w =
     (case collectInstructions w of
        Inl f \<Rightarrow> Some f
      | Inr n \<Rightarrow> if n = 0 then None
                 else (case claimTx w of Inl f \<Rightarrow> Some f | Inr signature \<Rightarrow> None))"

text \<open>The claim transaction was sent and confirmed.\<close>

definition claimConfirmed :: "world \<Rightarrow> bool" where
  "claimConfirmed w =
     (case collectInstructions w of
        Inl f \<Rightarrow> False
      | Inr n \<Rightarrow> n \<noteq> 0 \<and> (case claimTx w of Inl f \<Rightarrow> False | Inr signature \<Rightarrow> True))"

text \<open>The phase that \<open>checkTokenPhase\<close> returns.\<close>

definition phaseOf :: "world \<Rightarrow> LiquidBot \<Rightarrow> phase" where
  "phaseOf w b = fst (checkTokenPhase w b)"

text \<open>The deposit went through: the quote was computed and the deposit transaction was
  confirmed.\<close>

definition depositConfirmed :: "world \<Rightarrow> bool" where
  "depositConfirmed w =
     (case liquidityQuote w of
        Inl f \<Rightarrow> False
      | Inr lpToken \<Rightarrow> (case depositTx w of Inl f \<Rightarrow> False | Inr signature \<Rightarrow> True))"

text \<open>The two log lines that report the buyback and hold amounts of a harvest.\<close>

fun isSplitLog :: "event \<Rightarrow> bool" where
  "isSplitLog (LogEntry l (BuybackAmountIs x p)) = True"
| "isSplitLog (LogEntry l (HoldAmountIs x p)) = True"
| "isSplitLog e = False"

text \<open>The calls that one cycle adds to the record of calls.\<close>

definition newCalls :: "world \<Rightarrow> LiquidBot \<Rightarrow> call list" where
  "newCalls w b = drop (length (calls b)) (calls (runCycle w b))"

fun isDeposit :: "call \<Rightarrow> bool" where
  "isDeposit (AddLiquidityToPumpSwap x) = True"
| "isDeposit c = False"

section \<open>Concrete configurations and cycles\<close>

definition cfg0 :: BotConfig where
  "cfg0 = \<lparr>heliusRpcUrl = ''https://mainnet.helius-rpc.com'', privateKey = ''KEY'',
           tokenMint = ''MINT'', minFeeThreshold = fl (15 / 1000), buybackPercentage = 50,
           checkInterval = 60000\<rparr>"

definition goodKeys :: keyMaterial where
  "goodKeys = \<lparr>endpointIsUrl = True, secretKeyDecodes = True, mintIsPublicKey = True\<rparr>"

text \<open>The bot that \<open>new LiquidBot(cfg0)\<close> builds.\<close>

definition bot0 :: LiquidBot where
  "bot0 =
     \<lparr>config = cfg0, isRunning = False, intervalId = None,
      status = \<lparr>status_isRunning = False, status_tokenMint = ''MINT'',
                currentPhase = unknown, totalFeesCollected = 0, totalBuybacks = 0,
                totalSolHeld = 0, tokensHeld = 0, lastCheck = None,
                status_pumpSwapPool = None\<rparr>,
      pumpSwapPool = None,
      emitted = [LogEntry info (BotInitialized ''MINT''), LogEntry info WalletIs,
                 LogEntry info (MinFeeThresholdIs (fl (15 / 1000))),
                 LogEntry info (BuybackPercentageIs 50)],
      calls = []\<rparr>"

text \<open>The bot that \<open>new LiquidBot(cfg)\<close> builds when the keys parse.\<close>

definition freshBot :: "BotConfig \<Rightarrow> LiquidBot" where
  "freshBot cfg =
     \<lparr>config = cfg, isRunning = False, intervalId = None,
      status = \<lparr>status_isRunning = False, status_tokenMint = tokenMint cfg,
                currentPhase = unknown, totalFeesCollected = 0, totalBuybacks = 0,
                totalSolHeld = 0, tokensHeld = 0, lastCheck = None,
                status_pumpSwapPool = None\<rparr>,
      pumpSwapPool = None,
      emitted = [LogEntry info (BotInitialized (tokenMint cfg)), LogEntry info WalletIs,
                 LogEntry info (MinFeeThresholdIs (minFeeThreshold cfg)),
                 LogEntry info (BuybackPercentageIs (buybackPercentage cfg))],
      calls = []\<rparr>"

text \<open>A cycle in which every call succeeds, the curve is not complete, no pool account
  exists and the vault is empty; the cycles below change it field by field.\<close>

definition calmWorld :: world where
  "calmWorld = \<lparr>now = 0, fetchBondingCurve = Inr False, poolLookup = Inr None,
     getCreatorVaultBalance = Inr 0, collectInstructions = Inr 2, claimTx = Inr ''sigClaim'',
     bondingCurveBuy = Inr ''sigBuy'', swapState = Inr (), swapTx = Inr ''sigSwap'',
     liquidityQuote = Inr 1000, depositTx = Inr ''sigDeposit'',
     tokenAccountBalance = Inr None\<rparr>"

text \<open>C1: a harvest of 0.1 SOL on the bonding curve, then a cycle that finds the pool and
  whose deposit transaction fails.\<close>

definition c1_harvest :: world where
  "c1_harvest = calmWorld\<lparr>getCreatorVaultBalance := Inr 100000000\<rparr>"

definition c1_depositFails :: world where
  "c1_depositFails = calmWorld\<lparr>now := 1, fetchBondingCurve := Inr True,
     poolLookup := Inr (Some ''POOL''), getCreatorVaultBalance := Inr 20000000,
     depositTx := Inl (Fault ''Transaction simulation failed'')\<rparr>"

text \<open>C2: the curve is complete, the pool exists, and the swap transaction fails.\<close>

definition c2_swapFails :: world where
  "c2_swapFails = calmWorld\<lparr>fetchBondingCurve := Inr True,
     poolLookup := Inr (Some ''POOL''), getCreatorVaultBalance := Inr 20000000,
     swapTx := Inl (Fault ''Transaction was not confirmed'')\<rparr>"

text \<open>C4: 0.02 SOL in the vault, and no claim instruction is generated.\<close>

definition c4_noInstructions :: world where
  "c4_noInstructions = calmWorld\<lparr>getCreatorVaultBalance := Inr 20000000,
     collectInstructions := Inr 0\<rparr>"

text \<open>C6: the probe throws and no pool account exists, with 0.02 SOL in the vault.\<close>

definition c6_unknownPhase :: world where
  "c6_unknownPhase = calmWorld\<lparr>fetchBondingCurve := Inl (Fault ''Account not found''),
     getCreatorVaultBalance := Inr 20000000\<rparr>"

text \<open>C3: a probe that throws while the pool account exists; a probe that succeeds with
  \<open>complete = false\<close>; a probe that throws.\<close>

definition c3_poolFound :: world where
  "c3_poolFound = calmWorld\<lparr>fetchBondingCurve := Inl (Fault ''fetch failed''),
     poolLookup := Inr (Some ''POOL'')\<rparr>"

definition c3_staleCurve :: world where
  "c3_staleCurve = calmWorld\<lparr>now := 1, poolLookup := Inr (Some ''POOL'')\<rparr>"

definition c3_probeFails :: world where
  "c3_probeFails = calmWorld\<lparr>now := 3,
     fetchBondingCurve := Inl (Fault ''429 Too Many Requests'')\<rparr>"

text \<open>C5: a configuration with 30 percent and a harvest of 15000001 lamports, whose split
  does not sum to the harvest; then a harvest on the bonding curve, a harvest with the
  pool found, and a harvest with the curve complete and no pool account.\<close>

definition c5_cfg :: BotConfig where
  "c5_cfg = cfg0\<lparr>buybackPercentage := 30\<rparr>"

definition c5_leak :: world where
  "c5_leak = calmWorld\<lparr>getCreatorVaultBalance := Inr 15000001\<rparr>"

definition c5_harvest :: world where
  "c5_harvest = calmWorld\<lparr>getCreatorVaultBalance := Inr 100000000\<rparr>"

definition c5_deposit :: world where
  "c5_deposit = calmWorld\<lparr>now := 1, fetchBondingCurve := Inr True,
     poolLookup := Inr (Some ''POOL''), getCreatorVaultBalance := Inr 20000000\<rparr>"

definition c5_noPool :: world where
  "c5_noPool = calmWorld\<lparr>fetchBondingCurve := Inr True,
     getCreatorVaultBalance := Inr 20000000\<rparr>"

text \<open>C7: the curve is complete and no account exists at the derived address.\<close>

definition c7_noPoolAccount :: world where
  "c7_noPoolAccount = calmWorld\<lparr>fetchBondingCurve := Inr True\<rparr>"

text \<open>C8: 0.02 SOL in the vault, and the claim transaction is rejected.\<close>

definition c8_claimFails :: world where
  "c8_claimFails = calmWorld\<lparr>now := 1, getCreatorVaultBalance := Inr 20000000,
     claimTx := Inl (Fault ''Blockhash not found'')\<rparr>"

text \<open>C9: 0.01 SOL in the vault, below the threshold of 0.015 SOL.\<close>

definition c9_smallBalance :: world where
  "c9_smallBalance = calmWorld\<lparr>getCreatorVaultBalance := Inr 10000000,
     tokenAccountBalance := Inr (Some 1250)\<rparr>"

text \<open>C10: a configuration with 100 percent and a harvest of 15000002 lamports; a
  configuration with 150 percent and a harvest of 0.02 SOL.\<close>

definition c10_fullCfg :: BotConfig where
  "c10_fullCfg = cfg0\<lparr>buybackPercentage := 100\<rparr>"

definition c10_round :: world where
  "c10_round = calmWorld\<lparr>getCreatorVaultBalance := Inr 15000002\<rparr>"

definition c10_cfg :: BotConfig where
  "c10_cfg = cfg0\<lparr>buybackPercentage := 150\<rparr>"

definition c10_harvest :: world where
  "c10_harvest = calmWorld\<lparr>getCreatorVaultBalance := Inr 20000000\<rparr>"

section \<open>What each method reads and writes\<close>

lemma emitLog_sel [simp]:
  "config (emitLog l m b) = config b"
  "isRunning (emitLog l m b) = isRunning b"
  "intervalId (emitLog l m b) = intervalId b"
  "status (emitLog l m b) = status b"
  "pumpSwapPool (emitLog l m b) = pumpSwapPool b"
  "calls (emitLog l m b) = calls b"
  "emitted (emitLog l m b) = emitted b @ [LogEntry l m]"
  by (simp_all add: emitLog_def)

lemma enter_sel [simp]:
  "config (enter c b) = config b"
  "isRunning (enter c b) = isRunning b"
  "intervalId (enter c b) = intervalId b"
  "status (enter c b) = status b"
  "pumpSwapPool (enter c b) = pumpSwapPool b"
  "calls (enter c b) = calls b @ [c]"
  "emitted (enter c b) = emitted b"
  by (simp_all add: enter_def)

lemma addFees_sel [simp]:
  "config (addFees x b) = config b"
  "isRunning (addFees x b) = isRunning b"
  "intervalId (addFees x b) = intervalId b"
  "pumpSwapPool (addFees x b) = pumpSwapPool b"
  "calls (addFees x b) = calls b"
  "emitted (addFees x b) = emitted b"
  "totalFeesCollected (status (addFees x b)) = jsAdd (totalFeesCollected (status b)) x"
  "totalBuybacks (status (addFees x b)) = totalBuybacks (status b)"
  "totalSolHeld (status (addFees x b)) = totalSolHeld (status b)"
  "currentPhase (status (addFees x b)) = currentPhase (status b)"
  by (simp_all add: addFees_def)

lemma addBuyback_sel [simp]:
  "config (addBuyback x b) = config b"
  "isRunning (addBuyback x b) = isRunning b"
  "intervalId (addBuyback x b) = intervalId b"
  "pumpSwapPool (addBuyback x b) = pumpSwapPool b"
  "calls (addBuyback x b) = calls b"
  "emitted (addBuyback x b) = emitted b"
  "totalFeesCollected (status (addBuyback x b)) = totalFeesCollected (status b)"
  "totalBuybacks (status (addBuyback x b)) = jsAdd (totalBuybacks (status b)) x"
  "totalSolHeld (status (addBuyback x b)) = totalSolHeld (status b)"
  "currentPhase (status (addBuyback x b)) = currentPhase (status b)"
  by (simp_all add: addBuyback_def)

lemma addHeld_sel [simp]:
  "config (addHeld x b) = config b"
  "isRunning (addHeld x b) = isRunning b"
  "intervalId (addHeld x b) = intervalId b"
  "pumpSwapPool (addHeld x b) = pumpSwapPool b"
  "calls (addHeld x b) = calls b"
  "emitted (addHeld x b) = emitted b"
  "totalFeesCollected (status (addHeld x b)) = totalFeesCollected (status b)"
  "totalBuybacks (status (addHeld x b)) = totalBuybacks (status b)"
  "totalSolHeld (status (addHeld x b)) = jsAdd (totalSolHeld (status b)) x"
  "currentPhase (status (addHeld x b)) = currentPhase (status b)"
  by (simp_all add: addHeld_def)

lemma resetHeld_sel [simp]:
  "config (resetHeld b) = config b"
  "isRunning (resetHeld b) = isRunning b"
  "intervalId (resetHeld b) = intervalId b"
  "pumpSwapPool (resetHeld b) = pumpSwapPool b"
  "calls (resetHeld b) = calls b"
  "emitted (resetHeld b) = emitted b"
  "totalFeesCollected (status (resetHeld b)) = totalFeesCollected (status b)"
  "totalBuybacks (status (resetHeld b)) = totalBuybacks (status b)"
  "totalSolHeld (status (resetHeld b)) = 0"
  "currentPhase (status (resetHeld b)) = currentPhase (status b)"
  by (simp_all add: resetHeld_def)

lemma updateTokenBalance_sel [simp]:
  "config (updateTokenBalance w b) = config b"
  "isRunning (updateTokenBalance w b) = isRunning b"
  "intervalId (updateTokenBalance w b) = intervalId b"
  "pumpSwapPool (updateTokenBalance w b) = pumpSwapPool b"
  "calls (updateTokenBalance w b) = calls b"
  "emitted (updateTokenBalance w b) = emitted b"
  "totalFeesCollected (status (updateTokenBalance w b)) = totalFeesCollected (status b)"
  "totalBuybacks (status (updateTokenBalance w b)) = totalBuybacks (status b)"
  "totalSolHeld (status (updateTokenBalance w b)) = totalSolHeld (status b)"
  "currentPhase (status (updateTokenBalance w b)) = currentPhase (status b)"
  by (simp_all add: updateTokenBalance_def)

lemma emitStatusUpdate_sel [simp]:
  "config (emitStatusUpdate b) = config b"
  "isRunning (emitStatusUpdate b) = isRunning b"
  "intervalId (emitStatusUpdate b) = intervalId b"
  "status (emitStatusUpdate b) = status b"
  "pumpSwapPool (emitStatusUpdate b) = pumpSwapPool b"
  "calls (emitStatusUpdate b) = calls b"
  "emitted (emitStatusUpdate b) = emitted b @ [StatusUpdate (status b)]"
  by (simp_all add: emitStatusUpdate_def)

lemma detectPumpSwapPool_sel [simp]:
  "config (detectPumpSwapPool w b) = config b"
  "isRunning (detectPumpSwapPool w b) = isRunning b"
  "intervalId (detectPumpSwapPool w b) = intervalId b"
  "calls (detectPumpSwapPool w b) = calls b"
  "totalFeesCollected (status (detectPumpSwapPool w b)) = totalFeesCollected (status b)"
  "totalBuybacks (status (detectPumpSwapPool w b)) = totalBuybacks (status b)"
  "totalSolHeld (status (detectPumpSwapPool w b)) = totalSolHeld (status b)"
  "currentPhase (status (detectPumpSwapPool w b)) = currentPhase (status b)"
  by (simp_all add: detectPumpSwapPool_def split: sum.splits option.splits)

lemma detectPumpSwapPool_pool:
  "pumpSwapPool (detectPumpSwapPool w b) =
     (case poolLookup w of Inr (Some a) \<Rightarrow> Some a | _ \<Rightarrow> pumpSwapPool b)"
  by (simp add: detectPumpSwapPool_def split: sum.splits option.splits)

lemma checkTokenPhase_sel [simp]:
  "config (snd (checkTokenPhase w b)) = config b"
  "isRunning (snd (checkTokenPhase w b)) = isRunning b"
  "intervalId (snd (checkTokenPhase w b)) = intervalId b"
  "calls (snd (checkTokenPhase w b)) = calls b"
  "totalFeesCollected (status (snd (checkTokenPhase w b))) = totalFeesCollected (status b)"
  "totalBuybacks (status (snd (checkTokenPhase w b))) = totalBuybacks (status b)"
  "totalSolHeld (status (snd (checkTokenPhase w b))) = totalSolHeld (status b)"
  "currentPhase (status (snd (checkTokenPhase w b))) = currentPhase (status b)"
  by (simp_all add: checkTokenPhase_def Let_def split: sum.splits)

lemma getCreatorFeeBalance_sel [simp]:
  "config (snd (getCreatorFeeBalance w b)) = config b"
  "isRunning (snd (getCreatorFeeBalance w b)) = isRunning b"
  "intervalId (snd (getCreatorFeeBalance w b)) = intervalId b"
  "calls (snd (getCreatorFeeBalance w b)) = calls b"
  "status (snd (getCreatorFeeBalance w b)) = status b"
  "pumpSwapPool (snd (getCreatorFeeBalance w b)) = pumpSwapPool b"
  by (simp_all add: getCreatorFeeBalance_def split: sum.splits)


lemma getCreatorFeeBalance_fst [simp]:
  "fst (getCreatorFeeBalance w b) = readFeeBalance w"
  by (simp add: getCreatorFeeBalance_def readFeeBalance_def split: sum.splits)

lemma claimFees_fst [simp]: "fst (claimFees w b) = claimThrown w"
  by (simp add: claimFees_def claimThrown_def Let_def split: sum.splits)

lemma claimFees_sel [simp]:
  "config (snd (claimFees w b)) = config b"
  "isRunning (snd (claimFees w b)) = isRunning b"
  "intervalId (snd (claimFees w b)) = intervalId b"
  "status (snd (claimFees w b)) = status b"
  "pumpSwapPool (snd (claimFees w b)) = pumpSwapPool b"
  "calls (snd (claimFees w b)) = calls b @ [ClaimFees]"
  by (simp_all add: claimFees_def Let_def split: sum.splits)

lemma claimFees_emitted_thrown:
  "claimThrown w = Some f \<Longrightarrow>
   emitted (snd (claimFees w b)) = emitted b @ [LogEntry error (FailedToClaimFees f)]"
  by (auto simp: claimFees_def claimThrown_def Let_def split: sum.splits if_splits)

lemma buybackOnBondingCurve_fst [simp]:
  "fst (buybackOnBondingCurve w x b) =
     (case bondingCurveBuy w of Inl f \<Rightarrow> Some f | Inr signature \<Rightarrow> None)"
  by (simp add: buybackOnBondingCurve_def Let_def split: sum.splits)

lemma buybackOnBondingCurve_sel [simp]:
  "config (snd (buybackOnBondingCurve w x b)) = config b"
  "isRunning (snd (buybackOnBondingCurve w x b)) = isRunning b"
  "intervalId (snd (buybackOnBondingCurve w x b)) = intervalId b"
  "status (snd (buybackOnBondingCurve w x b)) = status b"
  "pumpSwapPool (snd (buybackOnBondingCurve w x b)) = pumpSwapPool b"
  "calls (snd (buybackOnBondingCurve w x b)) = calls b @ [BuybackOnBondingCurve x]"
  by (simp_all add: buybackOnBondingCurve_def Let_def split: sum.splits)

lemma buybackOnPumpSwap_sel [simp]:
  "config (buybackOnPumpSwap w x b) = config b"
  "isRunning (buybackOnPumpSwap w x b) = isRunning b"
  "intervalId (buybackOnPumpSwap w x b) = intervalId b"
  "status (buybackOnPumpSwap w x b) = status b"
  "pumpSwapPool (buybackOnPumpSwap w x b) = pumpSwapPool b"
  "calls (buybackOnPumpSwap w x b) = calls b @ [BuybackOnPumpSwap x]"
  by (simp_all add: buybackOnPumpSwap_def Let_def split: sum.splits)

lemma addLiquidityToPumpSwap_sel [simp]:
  "config (addLiquidityToPumpSwap w x b) = config b"
  "isRunning (addLiquidityToPumpSwap w x b) = isRunning b"
  "intervalId (addLiquidityToPumpSwap w x b) = intervalId b"
  "status (addLiquidityToPumpSwap w x b) = status b"
  "pumpSwapPool (addLiquidityToPumpSwap w x b) = pumpSwapPool b"
  "calls (addLiquidityToPumpSwap w x b) = calls b @ [AddLiquidityToPumpSwap x]"
  by (simp_all add: addLiquidityToPumpSwap_def Let_def split: sum.splits)

lemma handlePumpSwapPhase_sel [simp]:
  "config (handlePumpSwapPhase w x h b) = config b"
  "isRunning (handlePumpSwapPhase w x h b) = isRunning b"
  "intervalId (handlePumpSwapPhase w x h b) = intervalId b"
  "pumpSwapPool (handlePumpSwapPhase w x h b) = pumpSwapPool b"
  "currentPhase (status (handlePumpSwapPhase w x h b)) = currentPhase (status b)"
  "totalFeesCollected (status (handlePumpSwapPhase w x h b)) = totalFeesCollected (status b)"
  "totalBuybacks (status (handlePumpSwapPhase w x h b)) = jsAdd (totalBuybacks (status b)) x"
  by (simp_all add: handlePumpSwapPhase_def Let_def)

lemma handlePumpSwapPhase_held:
  "totalSolHeld (status (handlePumpSwapPhase w x h b)) =
     (if pumpSwapPool b = None then jsAdd (totalSolHeld (status b)) h else 0)"
  by (simp add: handlePumpSwapPhase_def Let_def)

lemma handlePumpSwapPhase_calls:
  "calls (handlePumpSwapPhase w x h b) =
     (if pumpSwapPool b = None then calls b @ [BuybackOnPumpSwap x]
      else calls b @ [BuybackOnPumpSwap x, AddLiquidityToPumpSwap (jsAdd (totalSolHeld (status b)) h)])"
  by (simp add: handlePumpSwapPhase_def Let_def)

lemma claimAndAllocate_sel [simp]:
  "config (snd (claimAndAllocate w ph a b)) = config b"
  "isRunning (snd (claimAndAllocate w ph a b)) = isRunning b"
  "intervalId (snd (claimAndAllocate w ph a b)) = intervalId b"
  "pumpSwapPool (snd (claimAndAllocate w ph a b)) = pumpSwapPool b"
  "currentPhase (status (snd (claimAndAllocate w ph a b))) = currentPhase (status b)"
  by (simp_all add: claimAndAllocate_def Let_def split_beta split: option.splits)

lemma claimAndAllocate_thrown:
  assumes "claimThrown w = Some f"
  shows "fst (claimAndAllocate w ph a b) = Some f"
    and "status (snd (claimAndAllocate w ph a b)) = status b"
    and "calls (snd (claimAndAllocate w ph a b)) = calls b @ [ClaimFees]"
    and "emitted (snd (claimAndAllocate w ph a b)) =
           emitted b @ [LogEntry success (FeesAboveThreshold (minFeeThreshold (config b))),
                        LogEntry error (FailedToClaimFees f)]"
  using assms
  by (simp_all add: claimAndAllocate_def split_beta claimFees_emitted_thrown split: option.splits)

lemma claimAndAllocate_fees:
  "totalFeesCollected (status (snd (claimAndAllocate w ph a b))) =
     (if claimThrown w = None then jsAdd (totalFeesCollected (status b)) a
      else totalFeesCollected (status b))"
  by (simp add: claimAndAllocate_def Let_def split_beta split: option.splits)

lemma checkTokenPhase_fst:
  "fst (checkTokenPhase w b) =
     (case fetchBondingCurve w of
        Inr c \<Rightarrow> if c then pumpswap else bonding_curve
      | Inl f \<Rightarrow> (case poolLookup w of
                   Inr (Some a) \<Rightarrow> pumpswap
                 | _ \<Rightarrow> if pumpSwapPool b \<noteq> None then pumpswap else unknown))"
  by (simp add: checkTokenPhase_def Let_def detectPumpSwapPool_pool
      split: sum.splits option.splits)

lemma checkTokenPhase_pool:
  "pumpSwapPool (snd (checkTokenPhase w b)) =
     (if fetchBondingCurve w = Inr False then pumpSwapPool b
      else (case poolLookup w of Inr (Some a) \<Rightarrow> Some a | _ \<Rightarrow> pumpSwapPool b))"
  by (simp add: checkTokenPhase_def Let_def detectPumpSwapPool_pool
      split: sum.splits option.splits)

lemma checkTokenPhase_reads_pool_only [simp]:
  "fst (checkTokenPhase w (emitLog l m b)) = fst (checkTokenPhase w b)"
  "fst (checkTokenPhase w (b\<lparr>status := s\<rparr>)) = fst (checkTokenPhase w b)"
  "pumpSwapPool (snd (checkTokenPhase w (emitLog l m b))) = pumpSwapPool (snd (checkTokenPhase w b))"
  "pumpSwapPool (snd (checkTokenPhase w (b\<lparr>status := s\<rparr>))) = pumpSwapPool (snd (checkTokenPhase w b))"
  by (auto simp: checkTokenPhase_fst checkTokenPhase_pool split: sum.splits option.splits)

lemma claimAndAllocate_held:
  "totalSolHeld (status (snd (claimAndAllocate w ph a b))) =
     (if claimThrown w \<noteq> None then totalSolHeld (status b)
      else if ph = bonding_curve then
        (case bondingCurveBuy w of
           Inl f \<Rightarrow> totalSolHeld (status b)
         | Inr s \<Rightarrow> jsAdd (totalSolHeld (status b)) (holdOf (config b) a))
      else if ph = pumpswap then
        (if pumpSwapPool b = None then jsAdd (totalSolHeld (status b)) (holdOf (config b) a) else 0)
      else totalSolHeld (status b))"
  by (simp add: claimAndAllocate_def Let_def split_beta handlePumpSwapPhase_held
      split: option.splits sum.splits)

lemma claimAndAllocate_buybacks:
  "totalBuybacks (status (snd (claimAndAllocate w ph a b))) =
     (if claimThrown w \<noteq> None then totalBuybacks (status b)
      else if ph = bonding_curve then
        (case bondingCurveBuy w of
           Inl f \<Rightarrow> totalBuybacks (status b)
         | Inr s \<Rightarrow> jsAdd (totalBuybacks (status b)) (buybackOf (config b) a))
      else if ph = pumpswap then jsAdd (totalBuybacks (status b)) (buybackOf (config b) a)
      else totalBuybacks (status b))"
  by (simp add: claimAndAllocate_def Let_def split_beta
      split: option.splits sum.splits)

lemma claimAndAllocate_calls:
  "calls (snd (claimAndAllocate w ph a b)) =
     (if claimThrown w \<noteq> None then calls b @ [ClaimFees]
      else if ph = bonding_curve then
        calls b @ [ClaimFees, BuybackOnBondingCurve (buybackOf (config b) a)]
      else if ph = pumpswap then
        (if pumpSwapPool b = None
         then calls b @ [ClaimFees, BuybackOnPumpSwap (buybackOf (config b) a)]
         else calls b @ [ClaimFees, BuybackOnPumpSwap (buybackOf (config b) a),
                         AddLiquidityToPumpSwap (jsAdd (totalSolHeld (status b)) (holdOf (config b) a))])
      else calls b @ [ClaimFees])"
  by (simp add: claimAndAllocate_def Let_def split_beta handlePumpSwapPhase_calls
      split: option.splits sum.splits)

text \<open>What a whole cycle leaves alone, and what it does to the pool and the phase.\<close>

lemma runCycle_config [simp]: "config (runCycle w b) = config b"
  by (simp add: runCycle_def runCycleBody_def Let_def split_beta
      split: option.splits sum.splits)

lemma runCycle_isRunning [simp]: "isRunning (runCycle w b) = isRunning b"
  by (simp add: runCycle_def runCycleBody_def Let_def split_beta
      split: option.splits sum.splits)

lemma runCycle_intervalId [simp]: "intervalId (runCycle w b) = intervalId b"
  by (simp add: runCycle_def runCycleBody_def Let_def split_beta
      split: option.splits sum.splits)

lemma runCycle_pool: "pumpSwapPool (runCycle w b) = pumpSwapPool (snd (checkTokenPhase w b))"
  by (simp add: runCycle_def runCycleBody_def Let_def split_beta
      split: option.splits sum.splits)

lemma runCycle_currentPhase: "currentPhase (status (runCycle w b)) = phaseOf w b"
  by (simp add: runCycle_def runCycleBody_def Let_def split_beta phaseOf_def
      split: option.splits sum.splits)

lemma runCycle_fees:
  "totalFeesCollected (status (runCycle w b)) =
     (case feeBalanceSOL w of
        Inl f \<Rightarrow> totalFeesCollected (status b)
      | Inr a \<Rightarrow>
          if minFeeThreshold (config b) \<le> a \<and> claimThrown w = None
          then jsAdd (totalFeesCollected (status b)) a
          else totalFeesCollected (status b))"
  by (simp add: runCycle_def runCycleBody_def Let_def split_beta feeBalanceSOL_def
      claimAndAllocate_fees split: option.splits sum.splits)

lemma runCycle_held:
  "totalSolHeld (status (runCycle w b)) =
     (case feeBalanceSOL w of
        Inl f \<Rightarrow> totalSolHeld (status b)
      | Inr a \<Rightarrow>
          if a < minFeeThreshold (config b) \<or> claimThrown w \<noteq> None
          then totalSolHeld (status b)
          else if phaseOf w b = bonding_curve then
            (case bondingCurveBuy w of
               Inl f \<Rightarrow> totalSolHeld (status b)
             | Inr s \<Rightarrow> jsAdd (totalSolHeld (status b)) (holdOf (config b) a))
          else if phaseOf w b = pumpswap then
            (if pumpSwapPool (runCycle w b) = None
             then jsAdd (totalSolHeld (status b)) (holdOf (config b) a) else 0)
          else totalSolHeld (status b))"
  unfolding runCycle_pool
  by (simp add: runCycle_def runCycleBody_def Let_def split_beta feeBalanceSOL_def
      claimAndAllocate_held phaseOf_def split: option.splits sum.splits)

lemma runCycle_buybacks:
  "totalBuybacks (status (runCycle w b)) =
     (case feeBalanceSOL w of
        Inl f \<Rightarrow> totalBuybacks (status b)
      | Inr a \<Rightarrow>
          if a < minFeeThreshold (config b) \<or> claimThrown w \<noteq> None
          then totalBuybacks (status b)
          else if phaseOf w b = bonding_curve then
            (case bondingCurveBuy w of
               Inl f \<Rightarrow> totalBuybacks (status b)
             | Inr s \<Rightarrow> jsAdd (totalBuybacks (status b)) (buybackOf (config b) a))
          else if phaseOf w b = pumpswap then jsAdd (totalBuybacks (status b)) (buybackOf (config b) a)
          else totalBuybacks (status b))"
  by (simp add: runCycle_def runCycleBody_def Let_def split_beta feeBalanceSOL_def
      claimAndAllocate_buybacks phaseOf_def split: option.splits sum.splits)

lemma runCycle_calls:
  "calls (runCycle w b) =
     (case feeBalanceSOL w of
        Inl f \<Rightarrow> calls b
      | Inr a \<Rightarrow>
          if a < minFeeThreshold (config b) then calls b
          else if claimThrown w \<noteq> None then calls b @ [ClaimFees]
          else if phaseOf w b = bonding_curve then
            calls b @ [ClaimFees, BuybackOnBondingCurve (buybackOf (config b) a)]
          else if phaseOf w b = pumpswap then
            (if pumpSwapPool (runCycle w b) = None
             then calls b @ [ClaimFees, BuybackOnPumpSwap (buybackOf (config b) a)]
             else calls b @ [ClaimFees, BuybackOnPumpSwap (buybackOf (config b) a),
                             AddLiquidityToPumpSwap
                               (jsAdd (totalSolHeld (status b)) (holdOf (config b) a))])
          else calls b @ [ClaimFees])"
  unfolding runCycle_pool
  by (simp add: runCycle_def runCycleBody_def Let_def split_beta feeBalanceSOL_def
      claimAndAllocate_calls phaseOf_def split: option.splits sum.splits)

lemma detectPumpSwapPool_quiet:
  "\<exists>es. emitted (detectPumpSwapPool w b) = emitted b @ es \<and> filter isSplitLog es = []"
  by (simp add: detectPumpSwapPool_def split: sum.splits option.splits)

lemma checkTokenPhase_quiet:
  "\<exists>es. emitted (snd (checkTokenPhase w b)) = emitted b @ es \<and> filter isSplitLog es = []"
proof (cases "fetchBondingCurve w")
  case (Inl f)
  obtain es where "emitted (detectPumpSwapPool w (emitLog warning CouldNotDeterminePhase b)) =
      emitted (emitLog warning CouldNotDeterminePhase b) @ es" and "filter isSplitLog es = []"
    using detectPumpSwapPool_quiet by blast
  then have "emitted (snd (checkTokenPhase w b)) =
      emitted b @ (LogEntry warning CouldNotDeterminePhase # es) \<and>
      filter isSplitLog (LogEntry warning CouldNotDeterminePhase # es) = []"
    using Inl by (simp add: checkTokenPhase_def Let_def)
  then show ?thesis by blast
next
  case (Inr c)
  then show ?thesis
    using detectPumpSwapPool_quiet [of w b] by (simp add: checkTokenPhase_def)
qed

lemma getCreatorFeeBalance_quiet:
  "\<exists>es. emitted (snd (getCreatorFeeBalance w b)) = emitted b @ es \<and> filter isSplitLog es = []"
  by (simp add: getCreatorFeeBalance_def split: sum.splits)

text \<open>Lines 132 to 143: everything a cycle emits up to and including the fee balance.\<close>

lemma prelude_quiet:
  "\<exists>es. emitted
          (emitLog info (CreatorFeeBalance a)
            (snd (getCreatorFeeBalance w
              (emitLog info (TokenPhase ph)
                ((snd (checkTokenPhase w ((emitLog info RunningCycle b)\<lparr>status := s\<rparr>)))
                   \<lparr>status := s'\<rparr>))))) = emitted b @ es \<and>
        filter isSplitLog es = []"
proof -
  let ?b2 = "(emitLog info RunningCycle b)\<lparr>status := s\<rparr>"
  let ?b3 = "snd (checkTokenPhase w ?b2)"
  let ?b4 = "emitLog info (TokenPhase ph) (?b3\<lparr>status := s'\<rparr>)"
  obtain es1 where e1: "emitted ?b3 = emitted ?b2 @ es1" "filter isSplitLog es1 = []"
    using checkTokenPhase_quiet by blast
  obtain es2 where e2: "emitted (snd (getCreatorFeeBalance w ?b4)) = emitted ?b4 @ es2"
    "filter isSplitLog es2 = []"
    using getCreatorFeeBalance_quiet by blast
  let ?es = "LogEntry info RunningCycle # es1 @ LogEntry info (TokenPhase ph) # es2 @
             [LogEntry info (CreatorFeeBalance a)]"
  have "emitted (emitLog info (CreatorFeeBalance a) (snd (getCreatorFeeBalance w ?b4))) =
        emitted b @ ?es"
    using e1 e2 by simp
  moreover have "filter isSplitLog ?es = []"
    using e1 e2 by simp
  ultimately show ?thesis by blast
qed

lemma runCycle_below_threshold_emitted:
  assumes "feeBalanceSOL w = Inr a" and "a < minFeeThreshold (config b)"
  shows "\<exists>pre. emitted (runCycle w b) =
           emitted b @ pre @
             [LogEntry info (FeesBelowThreshold a (minFeeThreshold (config b))),
              StatusUpdate (status (runCycle w b))] \<and> filter isSplitLog pre = []"
proof -
  obtain n where n: "toNumber (readFeeBalance w) = Inr n" "a = jsDiv n (10 ^ 9)"
    using assms(1) by (auto simp: feeBalanceSOL_def split: sum.splits)
  let ?s = "(status b)\<lparr>lastCheck := Some (now w)\<rparr>"
  let ?b2 = "(emitLog info RunningCycle b)\<lparr>status := ?s\<rparr>"
  let ?ph = "fst (checkTokenPhase w ?b2)"
  let ?b3 = "snd (checkTokenPhase w ?b2)"
  let ?b6 = "emitLog info (CreatorFeeBalance a)
               (snd (getCreatorFeeBalance w
                 (emitLog info (TokenPhase ?ph)
                    (?b3\<lparr>status := (status ?b3)\<lparr>currentPhase := ?ph\<rparr>\<rparr>))))"
  obtain pre where pre: "emitted ?b6 = emitted b @ pre" "filter isSplitLog pre = []"
    using prelude_quiet by blast
  have run: "runCycle w b =
      emitStatusUpdate (updateTokenBalance w
        (emitLog info (FeesBelowThreshold a (minFeeThreshold (config b))) ?b6))"
    using n(1) assms(2) unfolding n(2)
    by (simp add: runCycle_def runCycleBody_def Let_def split_beta)
  have "emitted (runCycle w b) =
      emitted b @ pre @ [LogEntry info (FeesBelowThreshold a (minFeeThreshold (config b))),
                         StatusUpdate (status (runCycle w b))]"
    unfolding run using pre(1) by simp
  then show ?thesis using pre(2) by blast
qed

lemma runCycle_claim_thrown_emitted:
  assumes "feeBalanceSOL w = Inr a" and "minFeeThreshold (config b) \<le> a"
    and "claimThrown w = Some f"
  shows "\<exists>pre. emitted (runCycle w b) =
           emitted b @ pre @
             [LogEntry success (FeesAboveThreshold (minFeeThreshold (config b))),
              LogEntry error (FailedToClaimFees f),
              LogEntry error (CycleError f)] \<and> filter isSplitLog pre = []"
proof -
  obtain n where n: "toNumber (readFeeBalance w) = Inr n" "a = jsDiv n (10 ^ 9)"
    using assms(1) by (auto simp: feeBalanceSOL_def split: sum.splits)
  let ?s = "(status b)\<lparr>lastCheck := Some (now w)\<rparr>"
  let ?b2 = "(emitLog info RunningCycle b)\<lparr>status := ?s\<rparr>"
  let ?ph = "fst (checkTokenPhase w ?b2)"
  let ?b3 = "snd (checkTokenPhase w ?b2)"
  let ?b6 = "emitLog info (CreatorFeeBalance a)
               (snd (getCreatorFeeBalance w
                 (emitLog info (TokenPhase ?ph)
                    (?b3\<lparr>status := (status ?b3)\<lparr>currentPhase := ?ph\<rparr>\<rparr>))))"
  obtain pre where pre: "emitted ?b6 = emitted b @ pre" "filter isSplitLog pre = []"
    using prelude_quiet by blast
  have cfg: "config ?b6 = config b" by simp
  have run: "runCycle w b =
      emitLog error (CycleError f) (snd (claimAndAllocate w ?ph a ?b6))"
    using n(1) assms(2) claimAndAllocate_thrown(1) [OF assms(3), of ?ph a ?b6] unfolding n(2)
    by (simp add: runCycle_def runCycleBody_def Let_def split_beta)
  have "emitted (runCycle w b) =
      emitted b @ pre @ [LogEntry success (FeesAboveThreshold (minFeeThreshold (config b))),
                         LogEntry error (FailedToClaimFees f),
                         LogEntry error (CycleError f)]"
    unfolding run using pre(1) claimAndAllocate_thrown(4) [OF assms(3), of ?ph a ?b6] cfg
    by simp
  then show ?thesis using pre(2) by blast
qed

section \<open>Facts about rounding\<close>

text \<open>Unfolding these evaluates \<open>fl\<close> at a numeral.\<close>

lemmas fl_eval = fl_def roundEven_def ilog2_def Let_def compute_bitlen

lemma ilog2_bounds:
  assumes "0 < x"
  shows "2 powi ilog2 x \<le> x \<and> x < 2 powi (ilog2 x + 1)"
proof (cases "1 \<le> x")
  case True
  define n where "n = \<lfloor>x\<rfloor>"
  have n: "0 < n" "of_int n \<le> x" "x < of_int n + 1"
    using True by (simp_all add: n_def)
  have b: "1 \<le> bitlen n" using n(1) by (simp add: bitlen_alt_def)
  from bitlen_bounds [OF n(1)]
  have lo: "(2::int) ^ nat (bitlen n - 1) \<le> n" and hi: "n + 1 \<le> 2 ^ nat (bitlen n)"
    by simp_all
  have "(2::real) ^ nat (bitlen n - 1) \<le> of_int n"
    using lo by (metis of_int_le_iff of_int_numeral of_int_power)
  then have "(2::real) ^ nat (bitlen n - 1) \<le> x"
    using n(2) by (rule order_trans)
  then have 1: "2 powi (bitlen n - 1) \<le> x"
    using b by (simp add: power_int_def)
  have "of_int (n + 1) \<le> (2::real) ^ nat (bitlen n)"
    using hi by (metis of_int_le_iff of_int_numeral of_int_power)
  then have "x < (2::real) ^ nat (bitlen n)"
    using n(3) by simp
  then have 2: "x < 2 powi bitlen n"
    using b by (simp add: power_int_def)
  show ?thesis using True 1 2 by (simp add: ilog2_def n_def)
next
  case False
  define y where "y = 1 / x"
  define m where "m = \<lceil>y\<rceil> - 1"
  have y: "1 < y" using False assms by (simp add: y_def)
  have m: "0 < m" "of_int m < y" "y \<le> of_int m + 1"
    using y by (simp_all add: m_def less_ceiling_iff) linarith+
  define c where "c = bitlen m"
  have c: "1 \<le> c" using m(1) by (simp add: c_def bitlen_alt_def)
  from bitlen_bounds [OF m(1)]
  have lo: "(2::int) ^ nat (c - 1) \<le> m" and hi: "m + 1 \<le> 2 ^ nat c"
    by (simp_all add: c_def)
  have "(2::real) ^ nat (c - 1) \<le> of_int m"
    using lo by (metis of_int_le_iff of_int_numeral of_int_power)
  then have 1: "(2::real) ^ nat (c - 1) < y" using m(2) by (rule le_less_trans)
  have "of_int (m + 1) \<le> (2::real) ^ nat c"
    using hi by (metis of_int_le_iff of_int_numeral of_int_power)
  then have 2: "y \<le> 2 ^ nat c" using m(3) by simp
  have x: "x = 1 / y" using assms by (simp add: y_def)
  have "1 / 2 ^ nat c \<le> x"
    unfolding x using 2 y by (simp add: frac_le)
  then have A: "2 powi (- c) \<le> x"
    using c by (simp add: power_int_def field_simps)
  have "x < 1 / 2 ^ nat (c - 1)"
    unfolding x using 1 by (simp add: frac_less2)
  then have B: "x < 2 powi (- c + 1)"
    using c by (cases "c = 1") (simp_all add: power_int_def field_simps nat_diff_distrib)
  show ?thesis using False A B by (simp add: ilog2_def y_def m_def c_def)
qed

lemma ilog2_unique:
  assumes "2 powi k \<le> x" and "x < 2 powi (k + 1)"
  shows "ilog2 x = k"
proof -
  have pos: "0 < x" using assms(1) zero_less_power_int [of "2::real" k] by linarith
  from ilog2_bounds [OF pos] have j: "2 powi ilog2 x \<le> x" "x < 2 powi (ilog2 x + 1)"
    by simp_all
  have "\<not> k + 1 \<le> ilog2 x"
  proof
    assume "k + 1 \<le> ilog2 x"
    then have "(2::real) powi (k + 1) \<le> 2 powi ilog2 x"
      by (intro power_int_increasing) simp_all
    then show False using assms(2) j(1) by linarith
  qed
  moreover have "\<not> ilog2 x + 1 \<le> k"
  proof
    assume "ilog2 x + 1 \<le> k"
    then have "(2::real) powi (ilog2 x + 1) \<le> 2 powi k"
      by (intro power_int_increasing) simp_all
    then show False using assms(1) j(2) by linarith
  qed
  ultimately show ?thesis by linarith
qed

lemma ilog2_mono:
  assumes "0 < x" and "x \<le> y"
  shows "ilog2 x \<le> ilog2 y"
proof (rule ccontr)
  assume "\<not> ilog2 x \<le> ilog2 y"
  then have "ilog2 y + 1 \<le> ilog2 x" by simp
  then have "(2::real) powi (ilog2 y + 1) \<le> 2 powi ilog2 x"
    by (intro power_int_increasing) simp_all
  moreover have "y < 2 powi (ilog2 y + 1)"
    using ilog2_bounds [of y] assms by simp
  moreover have "2 powi ilog2 x \<le> x"
    using ilog2_bounds [OF assms(1)] by simp
  ultimately show False using assms(2) by linarith
qed

lemma roundEven_cases: "roundEven r = \<lfloor>r\<rfloor> \<or> roundEven r = \<lfloor>r\<rfloor> + 1"
  by (simp add: roundEven_def Let_def)

lemma roundEven_of_int [simp]: "roundEven (of_int n) = n"
  by (simp add: roundEven_def Let_def)

lemma roundEven_ge_int:
  assumes "of_int m \<le> r"
  shows "m \<le> roundEven r"
proof -
  have "m \<le> \<lfloor>r\<rfloor>" using assms by (simp add: le_floor_iff)
  then show ?thesis using roundEven_cases [of r] by auto
qed

lemma roundEven_le_int:
  assumes "r \<le> of_int m"
  shows "roundEven r \<le> m"
proof (cases "r = of_int \<lfloor>r\<rfloor>")
  case True
  then have "roundEven r = \<lfloor>r\<rfloor>"
    by (metis roundEven_of_int)
  then show ?thesis using assms by (simp add: floor_le_iff)
next
  case False
  then have "of_int \<lfloor>r\<rfloor> < r" by (metis of_int_floor_le order_less_le)
  then have "of_int \<lfloor>r\<rfloor> < (of_int m :: real)" using assms by linarith
  then have "\<lfloor>r\<rfloor> < m" by simp
  then show ?thesis using roundEven_cases [of r] by auto
qed

lemma roundEven_error: "\<bar>of_int (roundEven r) - r\<bar> \<le> 1 / 2"
proof -
  have "of_int \<lfloor>r\<rfloor> \<le> r" "r < of_int \<lfloor>r\<rfloor> + 1" by linarith+
  then show ?thesis
    by (auto simp: roundEven_def Let_def abs_le_iff)
qed

lemma roundEven_mono:
  assumes "r \<le> s"
  shows "roundEven r \<le> roundEven s"
proof (cases "\<lfloor>r\<rfloor> = \<lfloor>s\<rfloor>")
  case True
  then show ?thesis using assms by (auto simp: roundEven_def Let_def)
next
  case False
  then have "\<lfloor>r\<rfloor> + 1 \<le> \<lfloor>s\<rfloor>"
    using floor_mono [OF assms] by linarith
  then show ?thesis
    using roundEven_cases [of r] roundEven_cases [of s] by auto
qed

lemma roundEven_minus: "roundEven (- r) = - roundEven r"
proof (cases "r = of_int \<lfloor>r\<rfloor>")
  case True
  then obtain n where "r = of_int n" ..
  then have "- r = of_int (- n)" by simp
  then show ?thesis using \<open>r = of_int n\<close> by (metis roundEven_of_int)
next
  case False
  have fm: "\<lfloor>- r\<rfloor> = - \<lfloor>r\<rfloor> - 1"
    using False by (simp add: floor_minus ceiling_altdef)
  have par: "even (- \<lfloor>r\<rfloor> - 1) \<longleftrightarrow> odd \<lfloor>r\<rfloor>" by simp
  have d: "of_int \<lfloor>r\<rfloor> < r" "r < of_int \<lfloor>r\<rfloor> + 1"
    using False by (metis of_int_floor_le order_less_le) linarith
  show ?thesis
    unfolding roundEven_def Let_def fm par
    using d by (auto simp: field_simps)
qed

lemma fl_zero [simp]: "fl 0 = 0"
  by (simp add: fl_def)

lemma fl_minus: "fl (- x) = - fl x"
  by (simp add: fl_def Let_def roundEven_minus)

lemma fl_nonneg:
  assumes "0 \<le> x"
  shows "0 \<le> fl x"
proof (cases "x = 0")
  case True
  then show ?thesis by simp
next
  case False
  define e where "e = max (ilog2 \<bar>x\<bar> - 52) (- 1074)"
  have "of_int 0 \<le> x / 2 powi e" using assms by simp
  then have "0 \<le> roundEven (x / 2 powi e)" by (rule roundEven_ge_int)
  then show ?thesis using False by (simp add: fl_def Let_def e_def)
qed

lemma fl_nonpos: "x \<le> 0 \<Longrightarrow> fl x \<le> 0"
  using fl_nonneg [of "- x"] by (simp add: fl_minus)

lemma fl_mono_pos:
  assumes "0 < x" and "x \<le> y"
  shows "fl x \<le> fl y"
proof -
  define ex where "ex = max (ilog2 x - 52) (- 1074)"
  define ey where "ey = max (ilog2 y - 52) (- 1074)"
  have y: "0 < y" using assms by linarith
  have k: "ilog2 x \<le> ilog2 y" using assms by (rule ilog2_mono)
  have flx: "fl x = of_int (roundEven (x / 2 powi ex)) * 2 powi ex"
    using assms(1) by (simp add: fl_def Let_def ex_def)
  have fly: "fl y = of_int (roundEven (y / 2 powi ey)) * 2 powi ey"
    using y by (simp add: fl_def Let_def ey_def)
  show ?thesis
  proof (cases "ex = ey")
    case True
    have "x / 2 powi ey \<le> y / 2 powi ey"
      using assms(2) by (simp add: divide_right_mono)
    then have "roundEven (x / 2 powi ey) \<le> roundEven (y / 2 powi ey)"
      by (rule roundEven_mono)
    then have "of_int (roundEven (x / 2 powi ey)) * 2 powi ey \<le>
        of_int (roundEven (y / 2 powi ey)) * (2::real) powi ey"
      by (simp add: mult_right_mono)
    then show ?thesis using True by (simp add: flx fly)
  next
    case False
    then have lt: "ex < ey" using k unfolding ex_def ey_def by arith
    then have ey_eq: "ey = ilog2 y - 52" unfolding ex_def ey_def by arith
    have kk: "ilog2 x + 1 \<le> ilog2 y" using lt unfolding ex_def ey_def by arith
    define P :: real where "P = 2 powi ilog2 y"
    have xP: "x \<le> P"
    proof -
      have "x < 2 powi (ilog2 x + 1)" using ilog2_bounds [OF assms(1)] by simp
      also have "\<dots> \<le> 2 powi ilog2 y" using kk by (intro power_int_increasing) simp_all
      finally show ?thesis by (simp add: P_def)
    qed
    have Py: "P \<le> y" using ilog2_bounds [OF y] by (simp add: P_def)
    have dx: "0 \<le> ilog2 y - ex" using lt ey_eq by simp
    have Px: "P = of_int (2 ^ nat (ilog2 y - ex)) * 2 powi ex"
    proof -
      have "(2::real) powi ilog2 y = 2 powi (ilog2 y - ex) * 2 powi ex"
        by (simp flip: power_int_add)
      then show ?thesis using dx by (simp add: P_def power_int_def)
    qed
    have Pe: "P = of_int (2 ^ 52) * 2 powi ey"
    proof -
      have "(2::real) powi (52 + (ilog2 y - 52)) = 2 powi 52 * 2 powi (ilog2 y - 52)"
        by (rule power_int_add) simp
      then show ?thesis by (simp add: P_def ey_eq)
    qed
    have "x / 2 powi ex \<le> of_int (2 ^ nat (ilog2 y - ex))"
      using xP unfolding Px by (simp add: field_simps)
    then have "roundEven (x / 2 powi ex) \<le> 2 ^ nat (ilog2 y - ex)"
      by (rule roundEven_le_int)
    then have "of_int (roundEven (x / 2 powi ex)) * 2 powi ex \<le>
        of_int (2 ^ nat (ilog2 y - ex)) * (2::real) powi ex"
      by (intro mult_right_mono) (simp_all del: of_int_power)
    then have 1: "fl x \<le> P" by (simp only: flx Px)
    have "of_int (2 ^ 52) \<le> y / 2 powi ey"
      using Py unfolding Pe by (simp add: field_simps)
    then have "2 ^ 52 \<le> roundEven (y / 2 powi ey)"
      by (rule roundEven_ge_int)
    then have "of_int (2 ^ 52) * (2::real) powi ey \<le>
        of_int (roundEven (y / 2 powi ey)) * 2 powi ey"
      by (intro mult_right_mono) (simp_all del: of_int_power)
    then have 2: "P \<le> fl y" by (simp only: fly Pe)
    from 1 2 show ?thesis by linarith
  qed
qed

lemma fl_mono:
  assumes "x \<le> y"
  shows "fl x \<le> fl y"
proof -
  consider "0 < x" | "x \<le> 0" "0 \<le> y" | "y < 0" by linarith
  then show ?thesis
  proof cases
    case 1
    then show ?thesis using assms by (rule fl_mono_pos)
  next
    case 2
    then show ?thesis using fl_nonpos [of x] fl_nonneg [of y] by linarith
  next
    case 3
    then have "0 < - y" "- y \<le> - x" using assms by simp_all
    then have "fl (- y) \<le> fl (- x)" by (rule fl_mono_pos)
    then show ?thesis by (simp add: fl_minus)
  qed
qed

lemma fl_error:
  "\<bar>fl x - x\<bar> \<le> \<bar>x\<bar> / 2 ^ 53 + 2 powi (- 1075)"
proof (cases "x = 0")
  case True
  then show ?thesis by simp
next
  case False
  define k where "k = ilog2 \<bar>x\<bar>"
  define e where "e = max (k - 52) (- 1074)"
  define q :: real where "q = 2 powi e"
  have q: "0 < q" by (simp add: q_def)
  have flx: "fl x = of_int (roundEven (x / q)) * q"
    using False by (simp add: fl_def Let_def e_def k_def q_def)
  have "fl x - x = (of_int (roundEven (x / q)) - x / q) * q"
    using q by (simp add: flx field_simps)
  then have "\<bar>fl x - x\<bar> = \<bar>of_int (roundEven (x / q)) - x / q\<bar> * q"
    using q by (simp add: abs_mult)
  also have "\<dots> \<le> (1 / 2) * q"
    using roundEven_error [of "x / q"] q by (intro mult_right_mono) simp_all
  finally have err: "\<bar>fl x - x\<bar> \<le> q / 2" by simp
  have pk: "2 powi k \<le> \<bar>x\<bar>"
    using ilog2_bounds [of "\<bar>x\<bar>"] False by (simp add: k_def)
  have p1: "0 < (2::real) powi (k - 52)" and p2: "0 < (2::real) powi (- 1074)"
    by simp_all
  have "q \<le> 2 powi (k - 52) + 2 powi (- 1074)"
  proof (cases "k - 52 \<le> - 1074")
    case True
    then have "e = - 1074" by (simp add: e_def)
    then have "q = 2 powi (- 1074)" by (simp only: q_def)
    then show ?thesis using p1 by linarith
  next
    case False
    then have "e = k - 52" by (simp add: e_def)
    then have "q = 2 powi (k - 52)" by (simp only: q_def)
    then show ?thesis using p2 by linarith
  qed
  moreover have "(2::real) powi (- 1074) = 2 * 2 powi (- 1075)"
    by (simp add: power_int_minus)
  ultimately have h: "q / 2 \<le> 2 powi (k - 52) / 2 + 2 powi (- 1075)"
    by linarith
  have "(2::real) powi (k - 52) = 2 powi k / 2 ^ 52"
    by (simp add: power_int_diff)
  then have "(2::real) powi (k - 52) / 2 = 2 powi k / 2 ^ 53"
    by simp
  also have "\<dots> \<le> \<bar>x\<bar> / 2 ^ 53"
    using pk by (rule divide_right_mono) simp
  finally have "q / 2 \<le> \<bar>x\<bar> / 2 ^ 53 + 2 powi (- 1075)"
    using h by linarith
  then show ?thesis using err by linarith
qed

lemma fl_upper:
  assumes "0 \<le> x"
  shows "fl x \<le> x + x / 2 ^ 53 + 2 powi (- 1075)"
  using fl_error [of x] assms by (simp add: abs_le_iff)

section \<open>Further facts about cycles\<close>

lemma constructor_cfg0: "constructor goodKeys cfg0 = Inr bot0"
  by (simp add: bot0_def constructor_def goodKeys_def cfg0_def emitLog_def)

lemma constructor_fresh:
  "endpointIsUrl km \<Longrightarrow> secretKeyDecodes km \<Longrightarrow> mintIsPublicKey km \<Longrightarrow>
   constructor km cfg = Inr (freshBot cfg)"
  by (simp add: freshBot_def constructor_def emitLog_def)

lemmas cycle_defs = runCycle_def runCycleBody_def claimAndAllocate_def handlePumpSwapPhase_def
  checkTokenPhase_def detectPumpSwapPool_def getCreatorFeeBalance_def toNumber_def claimFees_def
  buybackOnBondingCurve_def buybackOnPumpSwap_def addLiquidityToPumpSwap_def
  updateTokenBalance_def emitStatusUpdate_def emitLog_def enter_def addFees_def addBuyback_def
  addHeld_def resetHeld_def buybackOf_def holdOf_def jsAdd_def jsSub_def jsMul_def jsDiv_def
  fl_eval

lemmas balance_defs = feeBalanceSOL_def readFeeBalance_def toNumber_def jsDiv_def fl_eval

lemmas input_defs = bot0_def cfg0_def calmWorld_def

lemma started_bot0:
  "isRunning (start calmWorld bot0)"
  "intervalId (start calmWorld bot0) = Some 60000"
  "config (start calmWorld bot0) = cfg0"
  "calls (start calmWorld bot0) = []"
  "totalFeesCollected (status (start calmWorld bot0)) = 0"
  "totalBuybacks (status (start calmWorld bot0)) = 0"
  "totalSolHeld (status (start calmWorld bot0)) = 0"
  by (simp_all add: start_def cycle_defs input_defs)

lemma runCycle_keeps_pool: "pumpSwapPool b \<noteq> None \<Longrightarrow> pumpSwapPool (runCycle w b) \<noteq> None"
  by (auto simp: runCycle_pool checkTokenPhase_pool split: sum.splits option.splits)

lemma runCycles_keep_pool: "pumpSwapPool b \<noteq> None \<Longrightarrow> pumpSwapPool (runCycles ws b) \<noteq> None"
proof (induction ws arbitrary: b)
  case Nil
  then show ?case by simp
next
  case (Cons w ws)
  from Cons.prems have "pumpSwapPool (runCycle w b) \<noteq> None"
    by (rule runCycle_keeps_pool)
  then have "pumpSwapPool (runCycles ws (runCycle w b)) \<noteq> None"
    by (rule Cons.IH)
  then show ?case by simp
qed

lemma phaseOf_pool_cached:
  "pumpSwapPool b \<noteq> None \<Longrightarrow>
   phaseOf w b = (if fetchBondingCurve w = Inr False then bonding_curve else pumpswap)"
  by (auto simp: phaseOf_def checkTokenPhase_fst split: sum.splits option.splits)

lemma claimConfirmed_not_thrown: "claimConfirmed w \<Longrightarrow> claimThrown w = None"
  by (auto simp: claimConfirmed_def claimThrown_def split: sum.splits)

lemma start_sel:
  "\<not> isRunning b \<Longrightarrow> isRunning (start w b)"
  "\<not> isRunning b \<Longrightarrow> intervalId (start w b) = Some (checkInterval (config b))"
  "config (start w b) = config b"
  by (simp_all add: start_def Let_def)

lemma stop_config: "config (stop b) = config b"
  by (simp add: stop_def Let_def)

text \<open>With a percentage of at most 99, the buyback computed from a balance of at least one
  lamport stays below the balance: the two roundings cannot make up the missing percent.\<close>

lemma buybackOf_le:
  assumes p: "0 \<le> buybackPercentage cfg" "buybackPercentage cfg \<le> 99"
    and n: "0 \<le> n"
  shows "buybackOf cfg (jsDiv (of_int n) (10 ^ 9)) \<le> jsDiv (of_int n) (10 ^ 9)"
proof (cases "n = 0")
  case True
  then show ?thesis by (simp add: buybackOf_def jsDiv_def jsMul_def)
next
  case False
  define a where "a = jsDiv (of_int n) (10 ^ 9)"
  define t :: real where "t = 2 powi (- 1075)"
  define y where "y = fl (a * buybackPercentage cfg)"
  define c :: real where "c = 1 / 2 ^ 30"
  have "1 \<le> n" using False n by simp
  then have "(1::real) / 10 ^ 9 \<le> of_int n / 10 ^ 9"
    by (simp add: divide_right_mono)
  then have "fl (1 / 10 ^ 9) \<le> a"
    unfolding a_def jsDiv_def by (rule fl_mono)
  moreover have "c \<le> fl (1 / 10 ^ 9)"
    by (simp add: c_def fl_eval)
  ultimately have a: "c \<le> a" by linarith
  have "t \<le> c / 1000"
    by (simp add: t_def c_def)
  then have t: "t \<le> a / 1000" using a by linarith
  have "0 \<le> c" by (simp add: c_def)
  then have a0: "0 \<le> a" using a by linarith
  have ap: "0 \<le> a * buybackPercentage cfg" "a * buybackPercentage cfg \<le> a * 99"
    using a0 p by (simp_all add: mult_left_mono)
  have "y \<le> a * buybackPercentage cfg + a * buybackPercentage cfg / 2 ^ 53 + t"
    unfolding y_def t_def using ap(1) by (rule fl_upper)
  moreover have "a * buybackPercentage cfg / 2 ^ 53 \<le> a * 99 / 2 ^ 53"
    using ap(2) by (simp add: divide_right_mono)
  moreover have "a * 99 / 2 ^ 53 \<le> a / 1000" using a0 by simp
  ultimately have y: "y \<le> a * 99 + a / 1000 + a / 1000"
    using ap(2) t by linarith
  have y0: "0 \<le> y" unfolding y_def using ap(1) by (rule fl_nonneg)
  have z0: "0 \<le> y / 100" using y0 by simp
  have "fl (y / 100) \<le> y / 100 + y / 100 / 2 ^ 53 + t"
    unfolding t_def using z0 by (rule fl_upper)
  moreover have "y / 100 / 2 ^ 53 \<le> y / 100000" using y0 by simp
  ultimately have "fl (y / 100) \<le> a"
    using y t a0 by linarith
  then show ?thesis
    by (simp add: buybackOf_def jsDiv_def jsMul_def a_def y_def)
qed

lemma feeBalanceSOL_form:
  assumes "feeBalanceSOL w = Inr a"
  shows "a = jsDiv (of_int (readFeeBalance w)) (10 ^ 9)"
  using assms by (auto simp: feeBalanceSOL_def toNumber_def split: sum.splits if_splits)

lemma holdOf_nonneg:
  assumes "0 \<le> buybackPercentage cfg" and "buybackPercentage cfg \<le> 99"
    and "feeBalanceSOL w = Inr a" and "0 \<le> readFeeBalance w"
  shows "0 \<le> holdOf cfg a"
proof -
  have "buybackOf cfg a \<le> a"
    unfolding feeBalanceSOL_form [OF assms(3)] using assms(1,2,4) by (rule buybackOf_le)
  then have "0 \<le> a - buybackOf cfg a" by simp
  then show ?thesis unfolding holdOf_def jsSub_def by (rule fl_nonneg)
qed

lemma jsAdd_nonneg_ge:
  assumes "fl x = x" and "0 \<le> h"
  shows "x \<le> jsAdd x h"
proof -
  have "fl x \<le> fl (x + h)" using assms(2) by (intro fl_mono) simp
  then show ?thesis by (simp add: jsAdd_def assms(1))
qed

text \<open>With a percentage between 0 and 99, a non-negative balance and a reserve that is a
  double, a cycle that does not enter the deposit never lowers the reserve.\<close>

lemma runCycle_held_mono:
  assumes "0 \<le> buybackPercentage (config b)" and "buybackPercentage (config b) \<le> 99"
    and "0 \<le> readFeeBalance w"
    and "fl (totalSolHeld (status b)) = totalSolHeld (status b)"
    and "\<not> list_ex isDeposit (newCalls w b)"
  shows "totalSolHeld (status b) \<le> totalSolHeld (status (runCycle w b))"
proof (cases "feeBalanceSOL w")
  case (Inl f)
  then show ?thesis by (simp add: runCycle_held)
next
  case (Inr a)
  have "0 \<le> holdOf (config b) a"
    using assms(1,2) Inr assms(3) by (rule holdOf_nonneg)
  then have up: "totalSolHeld (status b) \<le> jsAdd (totalSolHeld (status b)) (holdOf (config b) a)"
    using assms(4) by (intro jsAdd_nonneg_ge)
  show ?thesis
    using Inr up assms(5)
    by (auto simp: runCycle_held runCycle_calls newCalls_def split: sum.splits)
qed

section \<open>C1: the held reserve and a failed deposit\<close>

text \<open>
  C1. In the PumpSwap phase the held reserve \<open>totalSolHeld\<close> is to be reset to zero if and
  only if the liquidity deposit of that cycle is confirmed; a failed deposit is to leave
  it unchanged for the next cycle. The code does otherwise: \<open>addLiquidityToPumpSwap\<close>
  catches the fault of the deposit and returns normally, so \<open>handlePumpSwapPhase\<close> goes on
  to its reset. Below, a first cycle on the bonding curve harvests 0.1 SOL and holds
  0.05; in the second cycle the curve is complete, the pool exists, 0.02 SOL are
  harvested and the deposit transaction fails. The cycle ends normally with a status
  update, and the reserve is 0: neither the 0.05 it was nor the sum of 0.05 and 0.01
  offered to the deposit. Amounts are the doubles the source computes: \<open>fl (1 / 20)\<close> is
  the double written \<open>0.05\<close>.
\<close>

theorem C1_failed_deposit_still_clears_reserve:
  "totalSolHeld (status (runCycles [c1_harvest] bot0)) = fl (1 / 20) \<and>
   depositTx c1_depositFails = Inl (Fault ''Transaction simulation failed'') \<and>
   calls (runCycles [c1_harvest, c1_depositFails] bot0) =
     [ClaimFees, BuybackOnBondingCurve (fl (1 / 20)),
      ClaimFees, BuybackOnPumpSwap (fl (1 / 100)),
      AddLiquidityToPumpSwap (jsAdd (fl (1 / 20)) (fl (1 / 100)))] \<and>
   last (emitted (runCycles [c1_harvest, c1_depositFails] bot0)) =
     StatusUpdate (status (runCycles [c1_harvest, c1_depositFails] bot0)) \<and>
   LogEntry error (AddLiquidityFailed (Fault ''Transaction simulation failed''))
     \<in> set (emitted (runCycles [c1_harvest, c1_depositFails] bot0)) \<and>
   totalSolHeld (status (runCycles [c1_harvest, c1_depositFails] bot0)) = 0"
  by (simp add: cycle_defs input_defs c1_harvest_def c1_depositFails_def)

section \<open>C2: ledger updates and confirmation\<close>

text \<open>
  C2. Every addition to \<open>totalFeesCollected\<close>, \<open>totalBuybacks\<close> or \<open>totalSolHeld\<close> is to
  happen only after the claim, buy or deposit it records has been confirmed; a failed
  action is never to change the ledger. On the bonding curve this holds, because
  \<open>claimFees\<close> and \<open>buybackOnBondingCurve\<close> rethrow. On PumpSwap it does not:
  \<open>buybackOnPumpSwap\<close> swallows the fault and \<open>handlePumpSwapPhase\<close> books the buyback
  regardless. Below, the curve is complete, the pool exists, 0.02 SOL are claimed and the
  swap transaction fails: \<open>totalBuybacks\<close> still grows by 0.01.
\<close>

theorem C2_failed_swap_still_booked:
  "swapTx c2_swapFails = Inl (Fault ''Transaction was not confirmed'') \<and>
   calls (runCycle c2_swapFails bot0) =
     [ClaimFees, BuybackOnPumpSwap (fl (1 / 100)), AddLiquidityToPumpSwap (fl (1 / 100))] \<and>
   LogEntry error (PumpSwapBuybackFailed (Fault ''Transaction was not confirmed''))
     \<in> set (emitted (runCycle c2_swapFails bot0)) \<and>
   totalBuybacks (status bot0) = 0 \<and>
   totalBuybacks (status (runCycle c2_swapFails bot0)) = fl (1 / 100)"
  by (simp add: cycle_defs input_defs c2_swapFails_def)

section \<open>C3: the phase after a pool has been found\<close>

text \<open>
  C3. Once a cycle has reported \<open>pumpswap\<close> and confirmed the pool, no later cycle is to
  report \<open>bonding_curve\<close>, whatever the later probes of the bonding curve return. As
  stated this fails: \<open>checkTokenPhase\<close> consults the cached pool only when the probe
  throws. Below, the first cycle's probe throws and the pool account exists, so the phase
  is \<open>pumpswap\<close> and the pool is cached; the second cycle's probe succeeds with
  \<open>complete = false\<close> and the phase is \<open>bonding_curve\<close>.
\<close>

theorem C3_regression_counterexample:
  "currentPhase (status (runCycles [c3_poolFound] bot0)) = pumpswap \<and>
   pumpSwapPool (runCycles [c3_poolFound] bot0) = Some ''POOL'' \<and>
   currentPhase (status (runCycles [c3_poolFound, c3_staleCurve] bot0)) = bonding_curve"
  by (simp add: cycle_defs input_defs c3_poolFound_def c3_staleCurve_def)

text \<open>
  C3, as the code has it. Once a pool is cached it stays cached through any number of
  cycles, and the phase that the next cycle reports is decided by that cycle's own probe:
  \<open>bonding_curve\<close> exactly when the probe succeeds with \<open>complete = false\<close>, and
  \<open>pumpswap\<close> in every other case (the probe reports the curve complete, or it throws).
  In particular the phase is never \<open>unknown\<close> again.
\<close>

theorem C3_phase_once_pool_cached:
  assumes "pumpSwapPool b \<noteq> None"
  shows "pumpSwapPool (runCycles ws b) \<noteq> None \<and>
         currentPhase (status (runCycle w (runCycles ws b))) =
           (if fetchBondingCurve w = Inr False then bonding_curve else pumpswap)"
  using runCycles_keep_pool [OF assms, of ws]
  by (simp add: runCycle_currentPhase phaseOf_pool_cached)

text \<open>The hypothesis of C3 is met after the first cycle above; two cycles later a probe
  that throws yields \<open>pumpswap\<close>.\<close>

theorem C3_phase_once_pool_cached_witness:
  "pumpSwapPool (runCycle c3_poolFound bot0) \<noteq> None \<and>
   pumpSwapPool (runCycles [c3_staleCurve, calmWorld] (runCycle c3_poolFound bot0)) \<noteq> None \<and>
   currentPhase (status (runCycle c3_probeFails
       (runCycles [c3_staleCurve, calmWorld] (runCycle c3_poolFound bot0)))) = pumpswap"
proof -
  have h: "pumpSwapPool (runCycle c3_poolFound bot0) \<noteq> None"
    by (simp add: runCycle_pool checkTokenPhase_pool c3_poolFound_def calmWorld_def)
  have "fetchBondingCurve c3_probeFails \<noteq> Inr False"
    by (simp add: c3_probeFails_def calmWorld_def)
  then show ?thesis
    using h C3_phase_once_pool_cached [OF h, of "[c3_staleCurve, calmWorld]" c3_probeFails]
    by simp
qed

section \<open>C4: what is added to the fees collected\<close>

text \<open>
  C4. \<open>totalFeesCollected\<close> and \<open>totalBuybacks\<close> are to be non-decreasing, and
  \<open>totalFeesCollected\<close> is to grow by exactly the harvested amount when a claim succeeds
  and by zero otherwise. The last part fails on one path: when
  \<open>collectCoinCreatorFeeInstructions\<close> returns no instruction, \<open>claimFees\<close> logs a warning
  and returns without sending any transaction, and \<open>runCycle\<close> adds the balance it read to
  \<open>totalFeesCollected\<close> all the same. Below, the balance is 0.02 SOL and no instruction is
  generated: nothing is claimed, and 0.02 is booked.
\<close>

theorem C4_fees_booked_without_claim:
  "feeBalanceSOL c4_noInstructions = Inr (fl (1 / 50)) \<and>
   claimConfirmed c4_noInstructions = False \<and>
   LogEntry warning NoClaimInstructions \<in> set (emitted (runCycle c4_noInstructions bot0)) \<and>
   totalFeesCollected (status bot0) = 0 \<and>
   totalFeesCollected (status (runCycle c4_noInstructions bot0)) = fl (1 / 50)"
  by (simp add: cycle_defs input_defs c4_noInstructions_def feeBalanceSOL_def
      readFeeBalance_def claimConfirmed_def)

section \<open>C5: the split of a harvest\<close>

lemma claimAndAllocate_fst_pumpswap:
  "claimThrown w = None \<Longrightarrow> fst (claimAndAllocate w pumpswap a b) = None"
  by (simp add: claimAndAllocate_def Let_def split_beta split: option.splits)

lemma addLiquidityToPumpSwap_confirmed:
  assumes "pumpSwapPool b \<noteq> None" and "liquidityQuote w = Inr lpToken"
    and "depositTx w = Inr signature"
  shows "emitted (addLiquidityToPumpSwap w x b) =
           emitted b @ [LogEntry info (AddingLiquidity x lpToken),
                        LogEntry success (LiquidityAdded signature)]"
  using assms by (auto simp: addLiquidityToPumpSwap_def Let_def)

lemma claimAndAllocate_deposit_logged:
  assumes "claimThrown w = None" and "pumpSwapPool b \<noteq> None"
    and "liquidityQuote w = Inr lpToken" and "depositTx w = Inr signature"
  shows "LogEntry success (LiquidityAdded signature)
           \<in> set (emitted (snd (claimAndAllocate w pumpswap a b)))"
  using assms(1,2)
  by (auto simp: claimAndAllocate_def handlePumpSwapPhase_def Let_def split_beta
      addLiquidityToPumpSwap_confirmed [OF _ assms(3,4)] split: option.splits)

lemma runCycle_deposit_logged:
  assumes "feeBalanceSOL w = Inr a" and "minFeeThreshold (config b) \<le> a"
    and "claimThrown w = None" and "phaseOf w b = pumpswap"
    and "pumpSwapPool (runCycle w b) \<noteq> None"
    and "liquidityQuote w = Inr lpToken" and "depositTx w = Inr signature"
  shows "LogEntry success (LiquidityAdded signature) \<in> set (emitted (runCycle w b))"
proof -
  obtain n where n: "toNumber (readFeeBalance w) = Inr n" "a = jsDiv n (10 ^ 9)"
    using assms(1) by (auto simp: feeBalanceSOL_def split: sum.splits)
  let ?s = "(status b)\<lparr>lastCheck := Some (now w)\<rparr>"
  let ?b2 = "(emitLog info RunningCycle b)\<lparr>status := ?s\<rparr>"
  let ?b3 = "snd (checkTokenPhase w ?b2)"
  let ?b6 = "emitLog info (CreatorFeeBalance a)
               (snd (getCreatorFeeBalance w
                 (emitLog info (TokenPhase pumpswap)
                    (?b3\<lparr>status := (status ?b3)\<lparr>currentPhase := pumpswap\<rparr>\<rparr>))))"
  have ph: "fst (checkTokenPhase w b) = pumpswap"
    using assms(4) by (simp add: phaseOf_def)
  have pool: "pumpSwapPool ?b6 \<noteq> None"
    using assms(5) by (simp add: runCycle_pool)
  have cfg: "config ?b6 = config b" by simp
  have run: "runCycle w b =
      emitStatusUpdate (updateTokenBalance w (snd (claimAndAllocate w pumpswap a ?b6)))"
    using n(1) assms(2) ph claimAndAllocate_fst_pumpswap [OF assms(3), of a ?b6]
    unfolding n(2)
    by (simp add: runCycle_def runCycleBody_def Let_def split_beta)
  show ?thesis
    unfolding run
    using claimAndAllocate_deposit_logged [OF assms(3) pool assms(6,7), of a]
    by simp
qed

text \<open>
  C5. For a harvested amount \<open>A\<close> and percentage \<open>p\<close> the split is
  \<open>buybackAmount = A * p / 100\<close> and \<open>holdAmount = A - buybackAmount\<close>, so that the two sum
  to \<open>A\<close> exactly, with no rounding leakage, and \<open>A\<close> is added to \<open>totalFeesCollected\<close> and
  \<open>holdAmount\<close> to the held reserve. The exactness fails: the source computes in
  doubles, and each of the product, the quotient and the difference is rounded. Below,
  the percentage is 30 and 15000001 lamports are harvested on the bonding curve with every
  call confirmed: the buyback amount plus the hold amount is not the harvested amount,
  whether the sum is taken exactly or as the source's \<open>+\<close> would compute it, and the ledger
  ends with \<open>totalBuybacks\<close> and \<open>totalSolHeld\<close> holding the two parts and
  \<open>totalFeesCollected\<close> the whole.
\<close>

theorem C5_split_leaks_counterexample:
  "feeBalanceSOL c5_leak = Inr (fl (15000001 / 10 ^ 9)) \<and>
   claimConfirmed c5_leak \<and>
   buybackOf c5_cfg (fl (15000001 / 10 ^ 9)) + holdOf c5_cfg (fl (15000001 / 10 ^ 9))
     \<noteq> fl (15000001 / 10 ^ 9) \<and>
   jsAdd (buybackOf c5_cfg (fl (15000001 / 10 ^ 9))) (holdOf c5_cfg (fl (15000001 / 10 ^ 9)))
     \<noteq> fl (15000001 / 10 ^ 9) \<and>
   totalFeesCollected (status (runCycle c5_leak (freshBot c5_cfg))) = fl (15000001 / 10 ^ 9) \<and>
   totalBuybacks (status (runCycle c5_leak (freshBot c5_cfg))) =
     buybackOf c5_cfg (fl (15000001 / 10 ^ 9)) \<and>
   totalSolHeld (status (runCycle c5_leak (freshBot c5_cfg))) =
     holdOf c5_cfg (fl (15000001 / 10 ^ 9))"
  by (simp add: cycle_defs freshBot_def c5_cfg_def cfg0_def calmWorld_def c5_leak_def
      feeBalanceSOL_def readFeeBalance_def claimConfirmed_def)

text \<open>
  C5, as the code has it. In a cycle whose balance \<open>A\<close> reaches the threshold and whose
  claim transaction is confirmed: the buyback amount is the double \<open>(A * p) / 100\<close> and the
  hold amount the double \<open>A - buybackAmount\<close>; their sum differs from \<open>A\<close> by at most the
  rounding error of that one subtraction; and \<open>A\<close> is added to \<open>totalFeesCollected\<close>. The
  hold amount is added to the reserve in the bonding-curve phase once the buy is
  confirmed, and in the PumpSwap phase while no pool is cached. With a pool cached and
  the deposit confirmed, the reserve plus the hold amount is the amount passed to
  \<open>addLiquidityToPumpSwap\<close>, the deposit is logged as added, and the reserve is reset to
  zero.
\<close>

theorem C5_split_and_booking:
  assumes "feeBalanceSOL w = Inr a" and "minFeeThreshold (config b) \<le> a"
    and "claimConfirmed w"
  shows "buybackOf (config b) a = jsDiv (jsMul a (buybackPercentage (config b))) 100 \<and>
         holdOf (config b) a = jsSub a (buybackOf (config b) a) \<and>
         \<bar>buybackOf (config b) a + holdOf (config b) a - a\<bar>
           \<le> \<bar>a - buybackOf (config b) a\<bar> / 2 ^ 53 + 2 powi (- 1075) \<and>
         totalFeesCollected (status (runCycle w b)) =
           jsAdd (totalFeesCollected (status b)) a \<and>
         (phaseOf w b = bonding_curve \<and> (\<exists>s. bondingCurveBuy w = Inr s) \<longrightarrow>
            totalSolHeld (status (runCycle w b)) =
              jsAdd (totalSolHeld (status b)) (holdOf (config b) a)) \<and>
         (phaseOf w b = pumpswap \<and> pumpSwapPool (runCycle w b) = None \<longrightarrow>
            totalSolHeld (status (runCycle w b)) =
              jsAdd (totalSolHeld (status b)) (holdOf (config b) a)) \<and>
         (phaseOf w b = pumpswap \<and> pumpSwapPool (runCycle w b) \<noteq> None \<and>
          depositConfirmed w \<longrightarrow>
            newCalls w b =
              [ClaimFees, BuybackOnPumpSwap (buybackOf (config b) a),
               AddLiquidityToPumpSwap
                 (jsAdd (totalSolHeld (status b)) (holdOf (config b) a))] \<and>
            (\<exists>s. depositTx w = Inr s \<and>
                 LogEntry success (LiquidityAdded s) \<in> set (emitted (runCycle w b))) \<and>
            totalSolHeld (status (runCycle w b)) = 0)"
proof -
  have nt: "claimThrown w = None"
    using assms(3) by (rule claimConfirmed_not_thrown)
  have "buybackOf (config b) a = jsDiv (jsMul a (buybackPercentage (config b))) 100"
    by (simp add: buybackOf_def)
  moreover have "holdOf (config b) a = jsSub a (buybackOf (config b) a)"
    by (simp add: holdOf_def)
  moreover have "\<bar>buybackOf (config b) a + holdOf (config b) a - a\<bar>
      \<le> \<bar>a - buybackOf (config b) a\<bar> / 2 ^ 53 + 2 powi (- 1075)"
  proof -
    have "buybackOf (config b) a + holdOf (config b) a - a =
        fl (a - buybackOf (config b) a) - (a - buybackOf (config b) a)"
      by (simp add: holdOf_def jsSub_def)
    then show ?thesis
      using fl_error [of "a - buybackOf (config b) a"] by simp
  qed
  moreover have "totalFeesCollected (status (runCycle w b)) =
      jsAdd (totalFeesCollected (status b)) a"
    using assms(1,2) nt by (simp add: runCycle_fees)
  moreover have "phaseOf w b = bonding_curve \<and> (\<exists>s. bondingCurveBuy w = Inr s) \<longrightarrow>
      totalSolHeld (status (runCycle w b)) =
        jsAdd (totalSolHeld (status b)) (holdOf (config b) a)"
    using assms(1,2) nt by (auto simp: runCycle_held)
  moreover have "phaseOf w b = pumpswap \<and> pumpSwapPool (runCycle w b) = None \<longrightarrow>
      totalSolHeld (status (runCycle w b)) =
        jsAdd (totalSolHeld (status b)) (holdOf (config b) a)"
    using assms(1,2) nt by (auto simp: runCycle_held)
  moreover have "phaseOf w b = pumpswap \<and> pumpSwapPool (runCycle w b) \<noteq> None \<and>
      depositConfirmed w \<longrightarrow>
      newCalls w b =
        [ClaimFees, BuybackOnPumpSwap (buybackOf (config b) a),
         AddLiquidityToPumpSwap (jsAdd (totalSolHeld (status b)) (holdOf (config b) a))] \<and>
      (\<exists>s. depositTx w = Inr s \<and>
           LogEntry success (LiquidityAdded s) \<in> set (emitted (runCycle w b))) \<and>
      totalSolHeld (status (runCycle w b)) = 0"
  proof (intro impI, elim conjE)
    assume ph: "phaseOf w b = pumpswap" and pool: "pumpSwapPool (runCycle w b) \<noteq> None"
      and dep: "depositConfirmed w"
    obtain lp s where q: "liquidityQuote w = Inr lp" and d: "depositTx w = Inr s"
      using dep by (auto simp: depositConfirmed_def split: sum.splits)
    have "LogEntry success (LiquidityAdded s) \<in> set (emitted (runCycle w b))"
      using assms(1,2) nt ph pool q d by (rule runCycle_deposit_logged)
    then have "\<exists>s. depositTx w = Inr s \<and>
        LogEntry success (LiquidityAdded s) \<in> set (emitted (runCycle w b))"
      using d by blast
    moreover have "newCalls w b =
        [ClaimFees, BuybackOnPumpSwap (buybackOf (config b) a),
         AddLiquidityToPumpSwap (jsAdd (totalSolHeld (status b)) (holdOf (config b) a))]"
      using assms(1,2) nt ph pool by (auto simp: runCycle_calls newCalls_def)
    moreover have "totalSolHeld (status (runCycle w b)) = 0"
      using assms(1,2) nt ph pool by (auto simp: runCycle_held)
    ultimately show "newCalls w b =
        [ClaimFees, BuybackOnPumpSwap (buybackOf (config b) a),
         AddLiquidityToPumpSwap (jsAdd (totalSolHeld (status b)) (holdOf (config b) a))] \<and>
      (\<exists>s. depositTx w = Inr s \<and>
           LogEntry success (LiquidityAdded s) \<in> set (emitted (runCycle w b))) \<and>
      totalSolHeld (status (runCycle w b)) = 0"
      by blast
  qed
  ultimately show ?thesis by blast
qed

text \<open>The three cases of C5 at concrete cycles: a harvest of 0.1 SOL on the bonding curve,
  a harvest of 0.02 SOL with the curve complete and no pool account, and a harvest of
  0.02 SOL with the pool found and the deposit confirmed, after the first.\<close>

theorem C5_split_and_booking_witness:
  "feeBalanceSOL c5_harvest = Inr (fl (1 / 10)) \<and>
   minFeeThreshold (config bot0) \<le> fl (1 / 10) \<and>
   claimConfirmed c5_harvest \<and>
   phaseOf c5_harvest bot0 = bonding_curve \<and>
   bondingCurveBuy c5_harvest = Inr ''sigBuy'' \<and>
   totalFeesCollected (status (runCycle c5_harvest bot0)) = fl (1 / 10) \<and>
   totalSolHeld (status (runCycle c5_harvest bot0)) = fl (1 / 20) \<and>
   feeBalanceSOL c5_noPool = Inr (fl (1 / 50)) \<and>
   claimConfirmed c5_noPool \<and>
   phaseOf c5_noPool bot0 = pumpswap \<and>
   pumpSwapPool (runCycle c5_noPool bot0) = None \<and>
   totalSolHeld (status (runCycle c5_noPool bot0)) = fl (1 / 100) \<and>
   feeBalanceSOL c5_deposit = Inr (fl (1 / 50)) \<and>
   claimConfirmed c5_deposit \<and>
   phaseOf c5_deposit (runCycle c5_harvest bot0) = pumpswap \<and>
   pumpSwapPool (runCycle c5_deposit (runCycle c5_harvest bot0)) = Some ''POOL'' \<and>
   depositConfirmed c5_deposit \<and>
   LogEntry success (LiquidityAdded ''sigDeposit'')
     \<in> set (emitted (runCycle c5_deposit (runCycle c5_harvest bot0))) \<and>
   totalSolHeld (status (runCycle c5_deposit (runCycle c5_harvest bot0))) = 0 \<and>
   newCalls c5_deposit (runCycle c5_harvest bot0) =
     [ClaimFees, BuybackOnPumpSwap (fl (1 / 100)),
      AddLiquidityToPumpSwap (jsAdd (fl (1 / 20)) (fl (1 / 100)))]"
proof -
  have cfg: "config bot0 = cfg0" by (simp add: bot0_def)
  have held0: "totalSolHeld (status bot0) = 0" "totalFeesCollected (status bot0) = 0"
    "pumpSwapPool bot0 = None"
    by (simp_all add: bot0_def)
  have amounts: "holdOf cfg0 (fl (1 / 10)) = fl (1 / 20)"
    "holdOf cfg0 (fl (1 / 50)) = fl (1 / 100)"
    "buybackOf cfg0 (fl (1 / 50)) = fl (1 / 100)"
    "jsAdd 0 (fl (1 / 10)) = fl (1 / 10)" "jsAdd 0 (fl (1 / 20)) = fl (1 / 20)"
    "jsAdd 0 (fl (1 / 100)) = fl (1 / 100)"
    by (simp_all add: holdOf_def buybackOf_def cfg0_def jsAdd_def jsSub_def jsMul_def
        jsDiv_def fl_eval)
  have a1: "feeBalanceSOL c5_harvest = Inr (fl (1 / 10))"
    by (simp add: balance_defs c5_harvest_def calmWorld_def)
  have a2: "minFeeThreshold (config bot0) \<le> fl (1 / 10)"
    by (simp add: bot0_def cfg0_def fl_eval)
  have a3: "claimConfirmed c5_harvest"
    by (simp add: claimConfirmed_def c5_harvest_def calmWorld_def)
  have a4: "phaseOf c5_harvest bot0 = bonding_curve"
    by (simp add: phaseOf_def checkTokenPhase_def c5_harvest_def calmWorld_def)
  have a5: "bondingCurveBuy c5_harvest = Inr ''sigBuy''"
    by (simp add: c5_harvest_def calmWorld_def)
  note A = C5_split_and_booking [OF a1 a2 a3]
  have b1: "feeBalanceSOL c5_noPool = Inr (fl (1 / 50))"
    by (simp add: balance_defs c5_noPool_def calmWorld_def)
  have b2: "minFeeThreshold (config bot0) \<le> fl (1 / 50)"
    by (simp add: bot0_def cfg0_def fl_eval)
  have b3: "claimConfirmed c5_noPool"
    by (simp add: claimConfirmed_def c5_noPool_def calmWorld_def)
  have b4: "phaseOf c5_noPool bot0 = pumpswap"
    by (simp add: phaseOf_def checkTokenPhase_def c5_noPool_def calmWorld_def)
  have b5: "pumpSwapPool (runCycle c5_noPool bot0) = None"
    by (simp add: runCycle_pool checkTokenPhase_pool c5_noPool_def calmWorld_def held0)
  note B = C5_split_and_booking [OF b1 b2 b3]
  let ?b = "runCycle c5_harvest bot0"
  have c1: "feeBalanceSOL c5_deposit = Inr (fl (1 / 50))"
    by (simp add: balance_defs c5_deposit_def calmWorld_def)
  have c2: "minFeeThreshold (config ?b) \<le> fl (1 / 50)"
    by (simp add: bot0_def cfg0_def fl_eval)
  have c3: "claimConfirmed c5_deposit"
    by (simp add: claimConfirmed_def c5_deposit_def calmWorld_def)
  have c4: "phaseOf c5_deposit ?b = pumpswap"
    by (simp add: phaseOf_def checkTokenPhase_fst c5_deposit_def calmWorld_def)
  have c5: "pumpSwapPool (runCycle c5_deposit ?b) = Some ''POOL''"
    by (simp add: runCycle_pool checkTokenPhase_pool c5_deposit_def calmWorld_def)
  have c6: "depositConfirmed c5_deposit" "depositTx c5_deposit = Inr ''sigDeposit''"
    by (simp_all add: depositConfirmed_def c5_deposit_def calmWorld_def)
  note C = C5_split_and_booking [OF c1 c2 c3]
  have heldA: "totalSolHeld (status ?b) = fl (1 / 20)"
    using A a4 a5 by (simp add: cfg held0 amounts)
  show ?thesis
    using A B C a1 a2 a3 a4 a5 b1 b3 b4 b5 c1 c3 c4 c5 c6 heldA
    by (simp add: cfg held0 amounts)
qed

section \<open>C6: a harvest in the unknown phase\<close>

text \<open>
  C6. When the phase is \<open>unknown\<close> and the fees were claimed, no buy or deposit is taken
  and the hold amount of the claim is to accumulate in \<open>totalSolHeld\<close>. The first half
  holds; the second does not: \<open>runCycle\<close> has a branch for \<open>bonding_curve\<close> and one for
  \<open>pumpswap\<close>, both of which book the hold amount, and none for \<open>unknown\<close>. Below, the
  probe throws, no pool account exists, and 0.02 SOL are claimed: the only call is the
  claim, \<open>totalFeesCollected\<close> is 0.02, the hold amount is 0.01, and \<open>totalSolHeld\<close> is
  still 0.
\<close>

theorem C6_unknown_phase_drops_hold:
  "currentPhase (status (runCycle c6_unknownPhase bot0)) = unknown \<and>
   feeBalanceSOL c6_unknownPhase = Inr (fl (1 / 50)) \<and>
   claimConfirmed c6_unknownPhase \<and>
   calls (runCycle c6_unknownPhase bot0) = [ClaimFees] \<and>
   totalFeesCollected (status (runCycle c6_unknownPhase bot0)) = fl (1 / 50) \<and>
   holdOf (config bot0) (fl (1 / 50)) = fl (1 / 100) \<and>
   totalSolHeld (status bot0) = 0 \<and>
   totalSolHeld (status (runCycle c6_unknownPhase bot0)) = 0"
  by (simp add: cycle_defs input_defs c6_unknownPhase_def feeBalanceSOL_def
      readFeeBalance_def claimConfirmed_def)

section \<open>C7: a complete curve without a pool account\<close>

text \<open>
  C7. When the probe of the bonding curve succeeds and reports the curve complete, but
  no account exists at the derived pool address, the detector is to return \<open>unknown\<close>.
  As stated this fails: \<open>checkTokenPhase\<close> returns \<open>pumpswap\<close> right after
  \<open>detectPumpSwapPool\<close>, whatever that found.
\<close>

theorem C7_complete_curve_without_pool_counterexample:
  "fetchBondingCurve c7_noPoolAccount = Inr True \<and>
   poolLookup c7_noPoolAccount = Inr None \<and>
   fst (checkTokenPhase c7_noPoolAccount bot0) = pumpswap \<and>
   currentPhase (status (runCycle c7_noPoolAccount bot0)) \<noteq> unknown"
  by (simp add: cycle_defs input_defs c7_noPoolAccount_def)

text \<open>
  C7, as the code has it. When the probe reports the curve complete and no account
  exists at the derived address, \<open>checkTokenPhase\<close> returns \<open>pumpswap\<close> and changes
  nothing: the cycle reports \<open>pumpswap\<close> and the cached pool is what it was (unset, if no
  earlier cycle found one).
\<close>

theorem C7_complete_curve_without_pool:
  assumes "fetchBondingCurve w = Inr True" and "poolLookup w = Inr None"
  shows "checkTokenPhase w b = (pumpswap, b) \<and>
         currentPhase (status (runCycle w b)) = pumpswap \<and>
         pumpSwapPool (runCycle w b) = pumpSwapPool b"
  using assms
  by (simp add: runCycle_currentPhase runCycle_pool phaseOf_def checkTokenPhase_def
      detectPumpSwapPool_def)

text \<open>C7 at the cycle of the counterexample.\<close>

theorem C7_complete_curve_without_pool_witness:
  "fetchBondingCurve c7_noPoolAccount = Inr True \<and>
   poolLookup c7_noPoolAccount = Inr None \<and>
   checkTokenPhase c7_noPoolAccount bot0 = (pumpswap, bot0) \<and>
   currentPhase (status (runCycle c7_noPoolAccount bot0)) = pumpswap \<and>
   pumpSwapPool (runCycle c7_noPoolAccount bot0) = pumpSwapPool bot0"
proof -
  have h1: "fetchBondingCurve c7_noPoolAccount = Inr True"
    by (simp add: c7_noPoolAccount_def calmWorld_def)
  have h2: "poolLookup c7_noPoolAccount = Inr None"
    by (simp add: c7_noPoolAccount_def calmWorld_def)
  show ?thesis
    using h1 h2 C7_complete_curve_without_pool [OF h1 h2, of bot0] by simp
qed

section \<open>C8: a failed claim\<close>

text \<open>
  C8. In a cycle whose balance reaches the threshold and whose claim fails (building the
  instructions or sending the transaction throws \<open>f\<close>): the three ledger fields are
  unchanged; the only call entered is \<open>claimFees\<close>, so no buy and no deposit; the cycle's
  events end with the two error entries, with no buyback or hold amount logged before
  them; and the loop stays as it was, running with its timer armed. When the failing
  cycle is the first one, run by \<open>start\<close>, the bot is running and the timer is armed
  afterwards.
\<close>

theorem C8_failed_claim:
  assumes "feeBalanceSOL w = Inr a" and "minFeeThreshold (config b) \<le> a"
    and "claimThrown w = Some f"
  shows "totalFeesCollected (status (runCycle w b)) = totalFeesCollected (status b) \<and>
         totalBuybacks (status (runCycle w b)) = totalBuybacks (status b) \<and>
         totalSolHeld (status (runCycle w b)) = totalSolHeld (status b) \<and>
         calls (runCycle w b) = calls b @ [ClaimFees] \<and>
         (\<exists>pre. emitted (runCycle w b) =
            emitted b @ pre @
              [LogEntry success (FeesAboveThreshold (minFeeThreshold (config b))),
               LogEntry error (FailedToClaimFees f),
               LogEntry error (CycleError f)] \<and> filter isSplitLog pre = []) \<and>
         isRunning (runCycle w b) = isRunning b \<and>
         intervalId (runCycle w b) = intervalId b \<and>
         (\<not> isRunning b \<longrightarrow>
            isRunning (start w b) \<and>
            intervalId (start w b) = Some (checkInterval (config b)))"
  using assms runCycle_claim_thrown_emitted [OF assms]
  by (simp add: runCycle_fees runCycle_buybacks runCycle_held runCycle_calls start_sel)

text \<open>C8 at a running bot: the bot started with an empty vault, then a cycle with 0.02 SOL
  in the vault whose claim transaction is rejected.\<close>

theorem C8_failed_claim_witness:
  "feeBalanceSOL c8_claimFails = Inr (fl (1 / 50)) \<and>
   minFeeThreshold (config (start calmWorld bot0)) \<le> fl (1 / 50) \<and>
   claimThrown c8_claimFails = Some (Fault ''Blockhash not found'') \<and>
   totalFeesCollected (status (runCycle c8_claimFails (start calmWorld bot0))) = 0 \<and>
   totalBuybacks (status (runCycle c8_claimFails (start calmWorld bot0))) = 0 \<and>
   totalSolHeld (status (runCycle c8_claimFails (start calmWorld bot0))) = 0 \<and>
   calls (runCycle c8_claimFails (start calmWorld bot0)) = [ClaimFees] \<and>
   isRunning (runCycle c8_claimFails (start calmWorld bot0)) \<and>
   intervalId (runCycle c8_claimFails (start calmWorld bot0)) = Some 60000"
proof -
  have h1: "feeBalanceSOL c8_claimFails = Inr (fl (1 / 50))"
    by (simp add: balance_defs c8_claimFails_def calmWorld_def)
  have h2: "minFeeThreshold (config (start calmWorld bot0)) \<le> fl (1 / 50)"
    by (simp add: started_bot0 cfg0_def fl_eval)
  have h3: "claimThrown c8_claimFails = Some (Fault ''Blockhash not found'')"
    by (simp add: claimThrown_def c8_claimFails_def calmWorld_def)
  show ?thesis
    using h1 h2 h3 C8_failed_claim [OF h1 h2 h3] by (simp add: started_bot0)
qed

section \<open>C9: a balance below the threshold\<close>

text \<open>
  C9. In a cycle whose balance is strictly below the threshold: no call is entered (no
  claim, buy or deposit), the three ledger fields are unchanged, the token balance is
  refreshed from the wallet's token account (zero when it is missing or the read
  fails), and the cycle's events end with the below-threshold entry followed by the
  status update, which carries the status the cycle ends with.
\<close>

theorem C9_below_threshold:
  assumes "feeBalanceSOL w = Inr a" and "a < minFeeThreshold (config b)"
  shows "calls (runCycle w b) = calls b \<and>
         totalFeesCollected (status (runCycle w b)) = totalFeesCollected (status b) \<and>
         totalBuybacks (status (runCycle w b)) = totalBuybacks (status b) \<and>
         totalSolHeld (status (runCycle w b)) = totalSolHeld (status b) \<and>
         tokensHeld (status (runCycle w b)) =
           (case tokenAccountBalance w of Inr (Some uiAmount) \<Rightarrow> uiAmount | _ \<Rightarrow> 0) \<and>
         (\<exists>pre. emitted (runCycle w b) =
            emitted b @ pre @
              [LogEntry info (FeesBelowThreshold a (minFeeThreshold (config b))),
               StatusUpdate (status (runCycle w b))] \<and> filter isSplitLog pre = [])"
proof -
  have "tokensHeld (status (runCycle w b)) =
      (case tokenAccountBalance w of Inr (Some uiAmount) \<Rightarrow> uiAmount | _ \<Rightarrow> 0)"
    using assms
    by (auto simp: runCycle_def runCycleBody_def Let_def split_beta feeBalanceSOL_def
        updateTokenBalance_def split: sum.splits option.splits)
  then show ?thesis
    using assms runCycle_below_threshold_emitted [OF assms]
    by (simp add: runCycle_fees runCycle_buybacks runCycle_held runCycle_calls)
qed

text \<open>C9 at a balance of 0.01 SOL against the threshold of 0.015 SOL.\<close>

theorem C9_below_threshold_witness:
  "feeBalanceSOL c9_smallBalance = Inr (fl (1 / 100)) \<and>
   fl (1 / 100) < minFeeThreshold (config bot0) \<and>
   calls (runCycle c9_smallBalance bot0) = [] \<and>
   totalFeesCollected (status (runCycle c9_smallBalance bot0)) = 0 \<and>
   totalBuybacks (status (runCycle c9_smallBalance bot0)) = 0 \<and>
   totalSolHeld (status (runCycle c9_smallBalance bot0)) = 0 \<and>
   tokensHeld (status (runCycle c9_smallBalance bot0)) = 1250 \<and>
   (\<exists>pre. emitted (runCycle c9_smallBalance bot0) =
      emitted bot0 @ pre @
        [LogEntry info (FeesBelowThreshold (fl (1 / 100)) (fl (15 / 1000))),
         StatusUpdate (status (runCycle c9_smallBalance bot0))])"
proof -
  have h1: "feeBalanceSOL c9_smallBalance = Inr (fl (1 / 100))"
    by (simp add: balance_defs c9_smallBalance_def calmWorld_def)
  have h2: "fl (1 / 100) < minFeeThreshold (config bot0)"
    by (simp add: bot0_def cfg0_def fl_eval)
  have b: "calls bot0 = []" "totalFeesCollected (status bot0) = 0"
    "totalBuybacks (status bot0) = 0" "totalSolHeld (status bot0) = 0"
    "minFeeThreshold (config bot0) = fl (15 / 1000)"
    "tokenAccountBalance c9_smallBalance = Inr (Some 1250)"
    by (simp_all add: bot0_def cfg0_def c9_smallBalance_def calmWorld_def)
  from C9_below_threshold [OF h1 h2] show ?thesis
    using h1 h2 by (auto simp: b)
qed

section \<open>C10: the percentage is not validated\<close>

text \<open>
  C10. Nothing validates \<open>buybackPercentage\<close>, so the sign of the hold amount depends on
  the configuration: for every configuration with \<open>0 \<le> buybackPercentage \<le> 100\<close> the hold
  amount is to be non-negative and \<open>totalSolHeld\<close> is never to decrease outside a deposit,
  while some percentage above 100 makes the reserve negative. The part about the range
  fails at its upper end: with 100 percent and 15000002 lamports harvested on the bonding
  curve, the buyback computed in doubles exceeds the harvest, the hold amount is
  negative, and \<open>totalSolHeld\<close> goes from 0 below zero in a cycle that enters no deposit.
\<close>

theorem C10_in_range_counterexample:
  "0 \<le> buybackPercentage c10_fullCfg \<and> buybackPercentage c10_fullCfg \<le> 100 \<and>
   constructor goodKeys c10_fullCfg = Inr (freshBot c10_fullCfg) \<and>
   0 \<le> readFeeBalance c10_round \<and>
   feeBalanceSOL c10_round = Inr (fl (15000002 / 10 ^ 9)) \<and>
   fl (15000002 / 10 ^ 9) < buybackOf c10_fullCfg (fl (15000002 / 10 ^ 9)) \<and>
   holdOf c10_fullCfg (fl (15000002 / 10 ^ 9)) < 0 \<and>
   newCalls c10_round (freshBot c10_fullCfg) =
     [ClaimFees, BuybackOnBondingCurve (buybackOf c10_fullCfg (fl (15000002 / 10 ^ 9)))] \<and>
   totalSolHeld (status (freshBot c10_fullCfg)) = 0 \<and>
   totalSolHeld (status (runCycle c10_round (freshBot c10_fullCfg))) < 0"
  by (simp add: cycle_defs newCalls_def freshBot_def constructor_def goodKeys_def
      c10_fullCfg_def cfg0_def calmWorld_def c10_round_def feeBalanceSOL_def
      readFeeBalance_def)

text \<open>
  C10, as the code has it. Nothing validates \<open>buybackPercentage\<close>: the constructor accepts
  every configuration whose keys parse and stores it as it is, and no method changes it.
  With \<open>0 \<le> buybackPercentage \<le> 99\<close> and a non-negative balance, the hold amount is
  non-negative, and a cycle that does not enter the deposit never lowers a reserve that
  is a double. At 100 percent rounding can already make the hold amount negative (the
  cycle above), and with some percentage above 100 (here 150) a confirmed harvest on the
  bonding curve adds a negative hold amount: \<open>totalSolHeld\<close> strictly decreases and becomes
  negative.
\<close>

theorem C10_unvalidated_percentage:
  "(\<forall>km cfg. endpointIsUrl km \<and> secretKeyDecodes km \<and> mintIsPublicKey km \<longrightarrow>
      (\<exists>b. constructor km cfg = Inr b \<and> config b = cfg \<and> totalSolHeld (status b) = 0)) \<and>
   (\<forall>w b. config (start w b) = config b \<and> config (runCycle w b) = config b \<and>
      config (stop b) = config b) \<and>
   (\<forall>cfg w a. 0 \<le> buybackPercentage cfg \<and> buybackPercentage cfg \<le> 99 \<and>
      feeBalanceSOL w = Inr a \<and> 0 \<le> readFeeBalance w \<longrightarrow>
      0 \<le> holdOf cfg a) \<and>
   (\<forall>w b. 0 \<le> buybackPercentage (config b) \<and> buybackPercentage (config b) \<le> 99 \<and>
      0 \<le> readFeeBalance w \<and> fl (totalSolHeld (status b)) = totalSolHeld (status b) \<and>
      \<not> list_ex isDeposit (newCalls w b) \<longrightarrow>
      totalSolHeld (status b) \<le> totalSolHeld (status (runCycle w b))) \<and>
   (\<exists>cfg w b a. 100 < buybackPercentage cfg \<and> constructor goodKeys cfg = Inr b \<and>
      feeBalanceSOL w = Inr a \<and> minFeeThreshold cfg \<le> a \<and> claimConfirmed w \<and>
      phaseOf w b = bonding_curve \<and> bondingCurveBuy w = Inr ''sigBuy'' \<and>
      holdOf cfg a < 0 \<and>
      totalSolHeld (status (runCycle w b)) = jsAdd (totalSolHeld (status b)) (holdOf cfg a) \<and>
      totalSolHeld (status (runCycle w b)) < totalSolHeld (status b) \<and>
      totalSolHeld (status (runCycle w b)) < 0)"
proof -
  have p1: "\<forall>km cfg. endpointIsUrl km \<and> secretKeyDecodes km \<and> mintIsPublicKey km \<longrightarrow>
      (\<exists>b. constructor km cfg = Inr b \<and> config b = cfg \<and> totalSolHeld (status b) = 0)"
    by (simp add: constructor_def)
  have p2: "\<forall>w b. config (start w b) = config b \<and> config (runCycle w b) = config b \<and>
      config (stop b) = config b"
    by (simp add: start_sel stop_config)
  have p3: "\<forall>cfg w a. 0 \<le> buybackPercentage cfg \<and> buybackPercentage cfg \<le> 99 \<and>
      feeBalanceSOL w = Inr a \<and> 0 \<le> readFeeBalance w \<longrightarrow>
      0 \<le> holdOf cfg a"
    using holdOf_nonneg by blast
  have p4: "\<forall>w b. 0 \<le> buybackPercentage (config b) \<and> buybackPercentage (config b) \<le> 99 \<and>
      0 \<le> readFeeBalance w \<and> fl (totalSolHeld (status b)) = totalSolHeld (status b) \<and>
      \<not> list_ex isDeposit (newCalls w b) \<longrightarrow>
      totalSolHeld (status b) \<le> totalSolHeld (status (runCycle w b))"
    using runCycle_held_mono by blast
  define b where "b = freshBot c10_cfg"
  have b: "constructor goodKeys c10_cfg = Inr b" "config b = c10_cfg"
    "totalSolHeld (status b) = 0" "pumpSwapPool b = None"
    by (simp_all add: b_def constructor_fresh goodKeys_def) (simp_all add: freshBot_def)
  have fee: "feeBalanceSOL c10_harvest = Inr (fl (1 / 50))"
    by (simp add: balance_defs c10_harvest_def calmWorld_def)
  have thr: "minFeeThreshold c10_cfg \<le> fl (1 / 50)" "100 < buybackPercentage c10_cfg"
    by (simp_all add: c10_cfg_def cfg0_def fl_eval)
  have cc: "claimConfirmed c10_harvest" "claimThrown c10_harvest = None"
    by (simp_all add: claimConfirmed_def claimThrown_def c10_harvest_def calmWorld_def)
  have ph: "phaseOf c10_harvest b = bonding_curve"
    by (simp add: phaseOf_def checkTokenPhase_def c10_harvest_def calmWorld_def)
  have buy: "bondingCurveBuy c10_harvest = Inr ''sigBuy''"
    by (simp add: c10_harvest_def calmWorld_def)
  have hold: "holdOf c10_cfg (fl (1 / 50)) < 0"
    "jsAdd 0 (holdOf c10_cfg (fl (1 / 50))) < 0"
    by (simp_all add: holdOf_def buybackOf_def c10_cfg_def cfg0_def jsAdd_def jsSub_def
        jsMul_def jsDiv_def fl_eval)
  have held: "totalSolHeld (status (runCycle c10_harvest b)) =
      jsAdd (totalSolHeld (status b)) (holdOf c10_cfg (fl (1 / 50)))"
    using fee thr cc ph buy b(2) by (simp add: runCycle_held)
  have p5: "\<exists>cfg w b a. 100 < buybackPercentage cfg \<and> constructor goodKeys cfg = Inr b \<and>
      feeBalanceSOL w = Inr a \<and> minFeeThreshold cfg \<le> a \<and> claimConfirmed w \<and>
      phaseOf w b = bonding_curve \<and> bondingCurveBuy w = Inr ''sigBuy'' \<and>
      holdOf cfg a < 0 \<and>
      totalSolHeld (status (runCycle w b)) = jsAdd (totalSolHeld (status b)) (holdOf cfg a) \<and>
      totalSolHeld (status (runCycle w b)) < totalSolHeld (status b) \<and>
      totalSolHeld (status (runCycle w b)) < 0"
    apply (rule exI [of _ c10_cfg], rule exI [of _ c10_harvest], rule exI [of _ b],
        rule exI [of _ "fl (1 / 50)"])
    using b fee thr cc ph buy held hold by simp
  show ?thesis
    using p1 p2 p3 p4 p5 by blast
qed

text \<open>The conditional parts of C10 at concrete inputs: the constructor on the
  configuration with 150 percent, and a harvest of 0.02 SOL with 50 percent on the
  bonding curve, which enters no deposit.\<close>

theorem C10_unvalidated_percentage_witness:
  "endpointIsUrl goodKeys \<and> secretKeyDecodes goodKeys \<and> mintIsPublicKey goodKeys \<and>
   (\<exists>b. constructor goodKeys c10_cfg = Inr b \<and> config b = c10_cfg \<and>
        totalSolHeld (status b) = 0) \<and>
   0 \<le> buybackPercentage cfg0 \<and> buybackPercentage cfg0 \<le> 99 \<and>
   feeBalanceSOL c10_harvest = Inr (fl (1 / 50)) \<and>
   0 \<le> readFeeBalance c10_harvest \<and>
   0 \<le> holdOf cfg0 (fl (1 / 50)) \<and>
   0 \<le> buybackPercentage (config bot0) \<and> buybackPercentage (config bot0) \<le> 99 \<and>
   fl (totalSolHeld (status bot0)) = totalSolHeld (status bot0) \<and>
   \<not> list_ex isDeposit (newCalls c10_harvest bot0) \<and>
   totalSolHeld (status bot0) \<le> totalSolHeld (status (runCycle c10_harvest bot0))"
proof -
  note T = C10_unvalidated_percentage
  have k: "endpointIsUrl goodKeys \<and> secretKeyDecodes goodKeys \<and> mintIsPublicKey goodKeys"
    by (simp add: goodKeys_def)
  have fee: "feeBalanceSOL c10_harvest = Inr (fl (1 / 50))"
    by (simp add: balance_defs c10_harvest_def calmWorld_def)
  have p: "0 \<le> buybackPercentage cfg0 \<and> buybackPercentage cfg0 \<le> 99 \<and>
      feeBalanceSOL c10_harvest = Inr (fl (1 / 50)) \<and> 0 \<le> readFeeBalance c10_harvest"
    using fee by (simp add: cfg0_def readFeeBalance_def c10_harvest_def calmWorld_def)
  have nd: "\<not> list_ex isDeposit (newCalls c10_harvest bot0)"
    by (simp add: cycle_defs input_defs newCalls_def c10_harvest_def)
  have q: "0 \<le> buybackPercentage (config bot0) \<and> buybackPercentage (config bot0) \<le> 99 \<and>
      0 \<le> readFeeBalance c10_harvest \<and>
      fl (totalSolHeld (status bot0)) = totalSolHeld (status bot0) \<and>
      \<not> list_ex isDeposit (newCalls c10_harvest bot0)"
    using nd by (simp add: bot0_def cfg0_def readFeeBalance_def c10_harvest_def calmWorld_def fl_def)
  have 1: "\<exists>b. constructor goodKeys c10_cfg = Inr b \<and> config b = c10_cfg \<and>
      totalSolHeld (status b) = 0"
    using T [THEN conjunct1, rule_format, of goodKeys c10_cfg] k by blast
  have 3: "0 \<le> holdOf cfg0 (fl (1 / 50))"
    using T [THEN conjunct2, THEN conjunct2, THEN conjunct1, rule_format,
        of cfg0 c10_harvest "fl (1 / 50)"] p
    by blast
  have 4: "totalSolHeld (status bot0) \<le> totalSolHeld (status (runCycle c10_harvest bot0))"
    using T [THEN conjunct2, THEN conjunct2, THEN conjunct2, THEN conjunct1, rule_format,
        of bot0 c10_harvest] q
    by blast
  show ?thesis using k p q 1 3 4 by blast
qed

end
